theory Spec2Isabelle
  imports Complex_Main "HOL-Library.AList" "HOL-Library.Sublist"
begin

section \<open>JavaScript values, objects and the heap\<close>

text \<open>
  The serializer walks a graph of JavaScript values.  A value is a primitive (the type
  \<^verbatim>\<open>Primitive\<close> of \<^verbatim>\<open>index.ts\<close>), a symbol, a function, a bigint or a reference
  to an object; two references are the same identity (\<^verbatim>\<open>===\<close>) exactly when their
  addresses are equal.  Symbols and functions carry an identity of their own beside
  their description or name.  A number is a real number or one of \<^verbatim>\<open>NaN\<close>,
  \<^verbatim>\<open>Infinity\<close>, \<^verbatim>\<open>-Infinity\<close> and \<^verbatim>\<open>-0\<close>; no arithmetic is done on numbers.
\<close>

type_synonym addr = nat

datatype primitive =
    PString string
  | PNumber real
  | PNaN
  | PInfinity
  | PNegInfinity
  | PNegZero
  | PBoolean bool
  | PUndefined
  | PNull

datatype jsval =
    VPrimitive primitive
  | VSymbol nat string
  | VFunction nat string
  | VObject addr
  | VBigInt int

abbreviation JSString :: "string \<Rightarrow> jsval" where
  "JSString s \<equiv> VPrimitive (PString s)"

abbreviation JSUndefined :: jsval where
  "JSUndefined \<equiv> VPrimitive PUndefined"

text \<open>A class (constructor function): its identity and its intrinsic \<^verbatim>\<open>name\<close>.\<close>

datatype jsclass = JSClass (cid: nat) (cname: string)

definition objectClass :: jsclass where
  "objectClass = JSClass 0 ''Object''"

text \<open>
  Objects.  A \<^verbatim>\<open>Date\<close> holds its time value (\<open>None\<close> for an invalid date), a
  \<^verbatim>\<open>Map\<close> its entries and a \<^verbatim>\<open>Set\<close> its members in insertion order, a
  \<^verbatim>\<open>RegExp\<close> its \<^verbatim>\<open>source\<close> and \<^verbatim>\<open>flags\<close>; these and arrays have the
  prototype they were created with and no further property of their own.  Any other
  object holds the classes whose prototype lies on its prototype chain, nearest first
  (none for a null prototype), and its own enumerable string-keyed properties in the
  order of \<^verbatim>\<open>Object.keys\<close>; any key may occur among them, \<^verbatim>\<open>constructor\<close> and
  \<^verbatim>\<open>__proto__\<close> included.  A class has no property but its \<^verbatim>\<open>name\<close>, and its
  prototype none but \<^verbatim>\<open>constructor\<close>.
\<close>

datatype jsobj =
    ODate "int option"
  | OMap "(jsval \<times> jsval) list"
  | OSet "jsval list"
  | ORegExp string string
  | OArray "jsval list"
  | OObject "jsclass list" "(string \<times> jsval) list"

type_synonym heap = "jsobj list"

text \<open>
  The decoder creates objects and symbols, so it runs on a world: the heap, where a new
  object takes the next free address, and the supply of fresh symbol identities.
\<close>

record world =
  objects :: heap
  nextSymbol :: nat

definition lookup :: "heap \<Rightarrow> addr \<Rightarrow> jsobj option" where
  "lookup h a = (if a < length h then Some (h ! a) else None)"

definition deref :: "heap \<Rightarrow> jsval \<Rightarrow> jsobj option" where
  "deref h v = (case v of VObject a \<Rightarrow> lookup h a | _ \<Rightarrow> None)"

text \<open>
  The errors.  Of an error message only the value that is put into it is kept; putting
  the value into the template literal of the message can throw an error of its own.
\<close>

datatype error =
    UnregisteredType jsval
  | UnknownBuiltin
  | UnsupportedValue
  | DanglingReference nat
  | MissingDeserializer jsval
  | UnableToDeserialize
  | TypeError
  | SyntaxError
  | HookError string

text \<open>
  What the host runtime and the program around the serializer contribute and the
  repository does not define: the text of a date, the date a text denotes, the
  \<^verbatim>\<open>source\<close> of the regular expression compiled from a pattern (\<open>None\<close> when the
  pattern is rejected with a SyntaxError); the error that the conversion of an object to
  a string throws, if any (the conversion runs the methods \<^verbatim>\<open>toString\<close> and
  \<^verbatim>\<open>valueOf\<close> of the object, which the heap does not hold, and throws a TypeError
  when there is none); and of a class of the program the classes it extends, nearest
  first, and the body of its constructor when it is called without arguments on the new
  object: it may change the world or throw, or not return (\<open>None\<close>).
\<close>

record host =
  dateToString :: "int option \<Rightarrow> string"
  dateParse :: "string \<Rightarrow> int option"
  compileRegExp :: "string \<Rightarrow> string option"
  objectToString :: "heap \<Rightarrow> addr \<Rightarrow> error option"
  superclasses :: "jsclass \<Rightarrow> jsclass list"
  construct :: "jsclass \<Rightarrow> addr \<Rightarrow> world \<Rightarrow> (error + world) option"

fun typeof :: "jsval \<Rightarrow> string" where
  "typeof (VPrimitive (PString s)) = ''string''"
| "typeof (VPrimitive (PNumber n)) = ''number''"
| "typeof (VPrimitive PNaN) = ''number''"
| "typeof (VPrimitive PInfinity) = ''number''"
| "typeof (VPrimitive PNegInfinity) = ''number''"
| "typeof (VPrimitive PNegZero) = ''number''"
| "typeof (VPrimitive (PBoolean b)) = ''boolean''"
| "typeof (VPrimitive PUndefined) = ''undefined''"
| "typeof (VPrimitive PNull) = ''object''"
| "typeof (VSymbol i d) = ''symbol''"
| "typeof (VFunction i n) = ''function''"
| "typeof (VObject a) = ''object''"
| "typeof (VBigInt n) = ''bigint''"

text \<open>The values that count as true in a condition.\<close>

fun truthy :: "jsval \<Rightarrow> bool" where
  "truthy (VPrimitive (PString s)) = (s \<noteq> [])"
| "truthy (VPrimitive (PNumber n)) = (n \<noteq> 0)"
| "truthy (VPrimitive PNaN) = False"
| "truthy (VPrimitive PInfinity) = True"
| "truthy (VPrimitive PNegInfinity) = True"
| "truthy (VPrimitive PNegZero) = False"
| "truthy (VPrimitive (PBoolean b)) = b"
| "truthy (VPrimitive PUndefined) = False"
| "truthy (VPrimitive PNull) = False"
| "truthy (VSymbol i d) = True"
| "truthy (VFunction i n) = True"
| "truthy (VObject a) = True"
| "truthy (VBigInt n) = (n \<noteq> 0)"

text \<open>\<^verbatim>\<open>String.prototype.slice(begin, end)\<close>, with negative positions counted from the end.\<close>

definition slice :: "int \<Rightarrow> int \<Rightarrow> string \<Rightarrow> string" where
  "slice b e s =
     (let n = int (length s);
          from = (if b < 0 then max (n + b) 0 else min b n);
          to = (if e < 0 then max (n + e) 0 else min e n)
      in take (nat (to - from)) (drop (nat from) s))"

definition symbolToString :: "string \<Rightarrow> string" where
  "symbolToString d = ''Symbol('' @ d @ '')''"

definition regExpToString :: "string \<Rightarrow> string \<Rightarrow> string" where
  "regExpToString src flags = ''/'' @ src @ ''/'' @ flags"

text \<open>\<^verbatim>\<open>source[key]\<close>: the property, or undefined.\<close>

definition getProp :: "(string \<times> jsval) list \<Rightarrow> string \<Rightarrow> jsval" where
  "getProp props key = (case map_of props key of Some v \<Rightarrow> v | None \<Rightarrow> JSUndefined)"

text \<open>
  \<^verbatim>\<open>source.constructor\<close>: a constructor of the runtime, a class of the program, the
  value of an own property named \<^verbatim>\<open>constructor\<close>, which hides the inherited one, or
  nothing (undefined).  Reading a property of undefined or null throws a TypeError; the
  guard of \<^verbatim>\<open>isObjectLiteral\<close> keeps the read away from them.
\<close>

datatype ctorval = Intrinsic string | ClassCtor jsclass | OwnValue jsval | NoCtor

fun getConstructor :: "heap \<Rightarrow> jsval \<Rightarrow> ctorval" where
  "getConstructor h (VPrimitive (PString s)) = Intrinsic ''String''"
| "getConstructor h (VPrimitive (PBoolean b)) = Intrinsic ''Boolean''"
| "getConstructor h (VPrimitive PUndefined) = NoCtor"
| "getConstructor h (VPrimitive PNull) = NoCtor"
| "getConstructor h (VPrimitive p) = Intrinsic ''Number''"
| "getConstructor h (VSymbol i d) = Intrinsic ''Symbol''"
| "getConstructor h (VFunction i n) = Intrinsic ''Function''"
| "getConstructor h (VBigInt n) = Intrinsic ''BigInt''"
| "getConstructor h (VObject a) =
     (case lookup h a of
        Some (ODate t) \<Rightarrow> Intrinsic ''Date''
      | Some (OMap es) \<Rightarrow> Intrinsic ''Map''
      | Some (OSet xs) \<Rightarrow> Intrinsic ''Set''
      | Some (ORegExp s f) \<Rightarrow> Intrinsic ''RegExp''
      | Some (OArray xs) \<Rightarrow> Intrinsic ''Array''
      | Some (OObject chain props) \<Rightarrow>
          (case map_of props ''constructor'' of
             Some u \<Rightarrow> OwnValue u
           | None \<Rightarrow> (case chain of [] \<Rightarrow> NoCtor | c # cs \<Rightarrow> ClassCtor c))
      | None \<Rightarrow> NoCtor)"

fun ctorTruthy :: "ctorval \<Rightarrow> bool" where
  "ctorTruthy (Intrinsic n) = True"
| "ctorTruthy (ClassCtor c) = True"
| "ctorTruthy (OwnValue u) = truthy u"
| "ctorTruthy NoCtor = False"

text \<open>\<^verbatim>\<open>u.name\<close> for a value \<open>u\<close>: the name of a function, the own property of an object.\<close>

fun nameOf :: "heap \<Rightarrow> jsval \<Rightarrow> error + jsval" where
  "nameOf h (VPrimitive PUndefined) = Inl TypeError"
| "nameOf h (VPrimitive PNull) = Inl TypeError"
| "nameOf h (VPrimitive p) = Inr JSUndefined"
| "nameOf h (VSymbol i d) = Inr JSUndefined"
| "nameOf h (VBigInt n) = Inr JSUndefined"
| "nameOf h (VFunction i n) = Inr (JSString n)"
| "nameOf h (VObject b) =
     (case lookup h b of
        Some (OObject chain props) \<Rightarrow> Inr (getProp props ''name'')
      | _ \<Rightarrow> Inr JSUndefined)"

fun ctorName :: "heap \<Rightarrow> ctorval \<Rightarrow> error + jsval" where
  "ctorName h (Intrinsic n) = Inr (JSString n)"
| "ctorName h (ClassCtor c) = Inr (JSString (cname c))"
| "ctorName h (OwnValue u) = nameOf h u"
| "ctorName h NoCtor = Inl TypeError"

text \<open>\<^verbatim>\<open>source.constructor.name\<close>.\<close>

definition constructorName :: "heap \<Rightarrow> jsval \<Rightarrow> error + jsval" where
  "constructorName h v = ctorName h (getConstructor h v)"

text \<open>
  The error thrown with a message into which the value \<open>v\<close> is put: the template literal
  converts \<open>v\<close> to a string first, which throws a TypeError for a symbol and may throw
  for an object.
\<close>

definition interpolated :: "host \<Rightarrow> heap \<Rightarrow> (jsval \<Rightarrow> error) \<Rightarrow> jsval \<Rightarrow> error" where
  "interpolated hst h mk v =
     (case v of
        VSymbol i d \<Rightarrow> TypeError
      | VObject b \<Rightarrow> (case objectToString hst h b of Some e \<Rightarrow> e | None \<Rightarrow> mk v)
      | _ \<Rightarrow> mk v)"

text \<open>\<^verbatim>\<open>source instanceof ctor\<close>, asked of constructed instances only.\<close>

definition instanceOf :: "heap \<Rightarrow> jsval \<Rightarrow> jsclass \<Rightarrow> bool" where
  "instanceOf h v c =
     (case deref h v of Some (OObject chain props) \<Rightarrow> c \<in> set chain | _ \<Rightarrow> False)"

definition ownProps :: "heap \<Rightarrow> jsval \<Rightarrow> (string \<times> jsval) list" where
  "ownProps h v = (case deref h v of Some (OObject chain props) \<Rightarrow> props | _ \<Rightarrow> [])"

section \<open>The intermediate form\<close>

text \<open>
  The type \<^verbatim>\<open>Serialized\<close> of \<^verbatim>\<open>index.ts\<close>.  The parameter \<open>'i\<close> is the content of
  the \<^verbatim>\<open>id\<close> field of a node.  A finished node has \<open>'i = nat option\<close>.  The four
  built-in classes are four constructors; a \<^verbatim>\<open>Date\<close> node is never entered in a
  table, its \<^verbatim>\<open>id\<close> is never written or read and is left out.  The \<^verbatim>\<open>class\<close>
  of an instance or custom node is declared a string; what the encoder writes there is
  the value of \<^verbatim>\<open>source.constructor.name\<close>, which need not be one.  \<open>Raw\<close> is an
  object that carries none of the node tags; only a custom serializer hook can produce
  one.
\<close>

datatype 'i node =
    Primitive primitive
  | ISymbol string
  | IFunction string
  | IObjectLiteral "(string \<times> 'i node) list" 'i
  | IBuiltInDate string
  | IBuiltInMap "('i node \<times> 'i node) list" 'i
  | IBuiltInSet "'i node list" 'i
  | IBuiltInRegExp string 'i
  | IInstance jsval "(string \<times> 'i node) list" 'i
  | ICustomSerializedObject jsval "'i node" 'i
  | IArray "'i node list" 'i
  | IReference nat
  | Raw "(string \<times> 'i node) list"

type_synonym serialized = "nat option node"

text \<open>
  While the encoder runs, the node object it created for a table entry is shared
  between that entry and the output, and \<^verbatim>\<open>findAlreadySerialized\<close> may write the
  node's \<^verbatim>\<open>id\<close> long after the node was returned.  The model keeps this one mutable
  field in the table entry: a node under construction refers to its entry by position
  (\<open>Slot\<close>), a node that is in no table carries its \<^verbatim>\<open>id\<close> itself (\<open>Fixed\<close>), and
  the top-level call reads the ids off the table when the traversal has ended.
\<close>

datatype idref = Slot nat | Fixed "nat option"

type_synonym prenode = "idref node"

text \<open>An entry of \<^verbatim>\<open>alreadySerialized\<close>: the source, and the \<^verbatim>\<open>id\<close> of its result.\<close>

type_synonym IAlreadySerialized = "jsval \<times> nat option"

text \<open>
  An encoder step runs on the table and the counter of the factory closure.  It gives
  \<open>None\<close> when the recursion budget is used up; otherwise the counter it leaves
  behind, with the node and the table, or with the error thrown.
\<close>

type_synonym 'a enc = "((error + 'a \<times> IAlreadySerialized list) \<times> nat) option"

definition ret :: "'a \<Rightarrow> IAlreadySerialized list \<Rightarrow> nat \<Rightarrow> 'a enc" where
  "ret x tbl c = Some (Inr (x, tbl), c)"

definition throw :: "error \<Rightarrow> nat \<Rightarrow> 'a enc" where
  "throw e c = Some (Inl e, c)"

definition bind :: "'a enc \<Rightarrow> ('a \<Rightarrow> IAlreadySerialized list \<Rightarrow> nat \<Rightarrow> 'b enc) \<Rightarrow> 'b enc" where
  "bind r k =
     (case r of
        None \<Rightarrow> None
      | Some (Inl e, c) \<Rightarrow> Some (Inl e, c)
      | Some (Inr (x, tbl), c) \<Rightarrow> k x tbl c)"

text \<open>
  A custom serializer hook receives the source, the table and a callback into the
  encoder.  It is modelled by what it does with them: it returns a payload, throws, or
  calls the callback on a value (handing the table on) and continues with the node it
  gets back.
\<close>

datatype hook_prog =
    HReturn prenode
  | HThrow string
  | HSerialize jsval "prenode \<Rightarrow> hook_prog"

section \<open>The constructor registry and the options\<close>

type_synonym IAlreadyDeserialized = "serialized \<times> jsval"

type_synonym dec = "(error + jsval \<times> IAlreadyDeserialized list \<times> world) option"

type_synonym deserializer_hook =
  "serialized \<Rightarrow> serialized \<Rightarrow> IAlreadyDeserialized list
     \<Rightarrow> (serialized \<Rightarrow> IAlreadyDeserialized list \<Rightarrow> world \<Rightarrow> dec) \<Rightarrow> world \<Rightarrow> dec"

record IConstructorAlias =
  name :: "string option"
  ctor :: jsclass
  serializer :: "(heap \<Rightarrow> jsval \<Rightarrow> hook_prog) option"
  deserializer :: "deserializer_hook option"

record ISerializationOptions =
  serializeSymbol :: "(jsval \<Rightarrow> error + serialized) option"
  serializeFunction :: "(jsval \<Rightarrow> error + serialized) option"
  deserializeSymbol :: "(string \<Rightarrow> error + jsval) option"
  deserializeFunction :: "(string \<Rightarrow> error + jsval) option"

section \<open>The encoder (\<^verbatim>\<open>serialize.ts\<close>)\<close>

definition isPrimitiveType :: "jsval \<Rightarrow> bool" where
  "isPrimitiveType source \<longleftrightarrow>
     typeof source = ''string'' \<or> typeof source = ''number'' \<or> typeof source = ''boolean''
     \<or> typeof source = ''undefined'' \<or> source = VPrimitive PNull"

definition isBuiltInType :: "heap \<Rightarrow> jsval \<Rightarrow> bool" where
  "isBuiltInType h source =
     (case deref h source of
        Some (ODate t) \<Rightarrow> True
      | Some (OMap es) \<Rightarrow> True
      | Some (OSet xs) \<Rightarrow> True
      | Some (ORegExp s f) \<Rightarrow> True
      | _ \<Rightarrow> False)"

definition isSymbol :: "jsval \<Rightarrow> bool" where
  "isSymbol source \<longleftrightarrow> typeof source = ''symbol''"

definition isFunction :: "jsval \<Rightarrow> bool" where
  "isFunction source \<longleftrightarrow> typeof source = ''function''"

definition isArray :: "heap \<Rightarrow> jsval \<Rightarrow> bool" where
  "isArray h source = (case deref h source of Some (OArray xs) \<Rightarrow> True | _ \<Rightarrow> False)"

text \<open>\<^verbatim>\<open>source && source.constructor && source.constructor.name === "Object"\<close>.\<close>

definition isObjectLiteral :: "heap \<Rightarrow> jsval \<Rightarrow> bool" where
  "isObjectLiteral h source \<longleftrightarrow>
     truthy source \<and> ctorTruthy (getConstructor h source)
     \<and> constructorName h source = Inr (JSString ''Object'')"

definition isInstance :: "heap \<Rightarrow> jsval \<Rightarrow> bool" where
  "isInstance h source \<longleftrightarrow> \<not> isObjectLiteral h source \<and> typeof source = ''object''"

text \<open>
  \<^verbatim>\<open>findAlreadySerialized\<close>: the first entry whose source is this identity; when its
  result has no \<^verbatim>\<open>id\<close> yet, the next counter value is written into it.
\<close>

fun findAlreadySerialized ::
  "jsval \<Rightarrow> IAlreadySerialized list \<Rightarrow> nat \<Rightarrow> (prenode \<times> IAlreadySerialized list \<times> nat) option"
where
  "findAlreadySerialized source [] c = None"
| "findAlreadySerialized source ((s, i) # rest) c =
     (if s = source then
        (case i of
           None \<Rightarrow> Some (IReference c, (s, Some c) # rest, c + 1)
         | Some j \<Rightarrow> Some (IReference j, (s, Some j) # rest, c))
      else
        (case findAlreadySerialized source rest c of
           None \<Rightarrow> None
         | Some (r, rest', c') \<Rightarrow> Some (r, (s, i) # rest', c')))"

text \<open>
  \<^verbatim>\<open>result.value[key] = n\<close> on the fields of a node under construction.  The fields
  object is a plain object: the key \<^verbatim>\<open>__proto__\<close> reaches the setter of
  \<^verbatim>\<open>Object.prototype\<close>, which creates no property (it changes the prototype of the
  fields object when \<open>n\<close> is an object, which nothing reads).
\<close>

definition setField :: "string \<Rightarrow> 'a \<Rightarrow> (string \<times> 'a) list \<Rightarrow> (string \<times> 'a) list" where
  "setField key n acc = (if key = ''__proto__'' then acc else AList.update key n acc)"

text \<open>The loops of the encoder, over the callback \<open>rec\<close> into \<^verbatim>\<open>doSerialize\<close>.\<close>

fun serializeProps ::
  "(jsval \<Rightarrow> IAlreadySerialized list \<Rightarrow> nat \<Rightarrow> prenode enc) \<Rightarrow> (string \<times> jsval) list \<Rightarrow> string list
     \<Rightarrow> (string \<times> prenode) list \<Rightarrow> IAlreadySerialized list \<Rightarrow> nat \<Rightarrow> (string \<times> prenode) list enc"
where
  "serializeProps rec props [] acc tbl c = ret acc tbl c"
| "serializeProps rec props (key # keys) acc tbl c =
     bind (rec (getProp props key) tbl c)
       (\<lambda>n tbl' c'. serializeProps rec props keys (setField key n acc) tbl' c')"

fun serializeItems ::
  "(jsval \<Rightarrow> IAlreadySerialized list \<Rightarrow> nat \<Rightarrow> prenode enc) \<Rightarrow> jsval list
     \<Rightarrow> prenode list \<Rightarrow> IAlreadySerialized list \<Rightarrow> nat \<Rightarrow> prenode list enc"
where
  "serializeItems rec [] acc tbl c = ret acc tbl c"
| "serializeItems rec (item # items) acc tbl c =
     bind (rec item tbl c) (\<lambda>n tbl' c'. serializeItems rec items (acc @ [n]) tbl' c')"

fun serializeEntries ::
  "(jsval \<Rightarrow> IAlreadySerialized list \<Rightarrow> nat \<Rightarrow> prenode enc) \<Rightarrow> (jsval \<times> jsval) list
     \<Rightarrow> (prenode \<times> prenode) list \<Rightarrow> IAlreadySerialized list \<Rightarrow> nat \<Rightarrow> (prenode \<times> prenode) list enc"
where
  "serializeEntries rec [] acc tbl c = ret acc tbl c"
| "serializeEntries rec ((key, val) # entries) acc tbl c =
     bind (rec key tbl c) (\<lambda>k tbl1 c1.
       bind (rec val tbl1 c1) (\<lambda>v tbl2 c2. serializeEntries rec entries (acc @ [(k, v)]) tbl2 c2))"

primrec runHook ::
  "(jsval \<Rightarrow> IAlreadySerialized list \<Rightarrow> nat \<Rightarrow> prenode enc) \<Rightarrow> hook_prog
     \<Rightarrow> IAlreadySerialized list \<Rightarrow> nat \<Rightarrow> prenode enc"
where
  "runHook rec (HReturn p) = (\<lambda>tbl c. ret p tbl c)"
| "runHook rec (HThrow m) = (\<lambda>tbl c. throw (HookError m) c)"
| "runHook rec (HSerialize v k) =
     (\<lambda>tbl c. bind (rec v tbl c) (\<lambda>n tbl' c'. runHook rec (k n) tbl' c'))"

definition serializeObjectLiteral ::
  "(jsval \<Rightarrow> IAlreadySerialized list \<Rightarrow> nat \<Rightarrow> prenode enc) \<Rightarrow> heap \<Rightarrow> jsval
     \<Rightarrow> IAlreadySerialized list \<Rightarrow> nat \<Rightarrow> prenode enc"
where
  "serializeObjectLiteral rec h source tbl c =
     (case findAlreadySerialized source tbl c of
        Some (existing, tbl', c') \<Rightarrow> ret existing tbl' c'
      | None \<Rightarrow>
          bind (serializeProps rec (ownProps h source) (map fst (ownProps h source)) []
                  (tbl @ [(source, None)]) c)
            (\<lambda>fs tbl' c'. ret (IObjectLiteral fs (Slot (length tbl))) tbl' c'))"

text \<open>
  The \<^verbatim>\<open>class\<close> of an instance or custom node: the alias when the entry has one,
  otherwise \<^verbatim>\<open>source.constructor.name\<close>, whose evaluation throws a TypeError when
  \<^verbatim>\<open>source.constructor\<close> is undefined or null.
\<close>

definition className :: "IConstructorAlias \<Rightarrow> heap \<Rightarrow> jsval \<Rightarrow> error + jsval" where
  "className customCtor h source =
     (case name customCtor of
        Some n \<Rightarrow> Inr (JSString n)
      | None \<Rightarrow> constructorName h source)"

definition serializeInstance ::
  "host \<Rightarrow> IConstructorAlias list \<Rightarrow> (jsval \<Rightarrow> IAlreadySerialized list \<Rightarrow> nat \<Rightarrow> prenode enc) \<Rightarrow> heap \<Rightarrow> jsval
     \<Rightarrow> IAlreadySerialized list \<Rightarrow> nat \<Rightarrow> prenode enc"
where
  "serializeInstance hst constructors rec h source tbl c =
     (case findAlreadySerialized source tbl c of
        Some (existing, tbl', c') \<Rightarrow> ret existing tbl' c'
      | None \<Rightarrow>
          (case find (\<lambda>cc. instanceOf h source (ctor cc)) constructors of
             Some customCtor \<Rightarrow>
               (case serializer customCtor of
                  Some hook \<Rightarrow>
                    (case className customCtor h source of
                       Inl e \<Rightarrow> throw e c
                     | Inr cls \<Rightarrow>
                         bind (runHook rec (hook h source) (tbl @ [(source, None)]) c)
                           (\<lambda>v tbl' c'. ret (ICustomSerializedObject cls v (Slot (length tbl))) tbl' c'))
                | None \<Rightarrow>
                    (case className customCtor h source of
                       Inl e \<Rightarrow> throw e c
                     | Inr cls \<Rightarrow>
                         bind (serializeProps rec (ownProps h source) (map fst (ownProps h source)) []
                                 (tbl @ [(source, None)]) c)
                           (\<lambda>props tbl' c'. ret (IInstance cls props (Slot (length tbl))) tbl' c')))
           | None \<Rightarrow>
               (case constructorName h source of
                  Inr n \<Rightarrow> throw (interpolated hst h UnregisteredType n) c
                | Inl e \<Rightarrow> throw e c)))"

definition serializeArray ::
  "(jsval \<Rightarrow> IAlreadySerialized list \<Rightarrow> nat \<Rightarrow> prenode enc) \<Rightarrow> heap \<Rightarrow> jsval
     \<Rightarrow> IAlreadySerialized list \<Rightarrow> nat \<Rightarrow> prenode enc"
where
  "serializeArray rec h source tbl c =
     (case findAlreadySerialized source tbl c of
        Some (existing, tbl', c') \<Rightarrow> ret existing tbl' c'
      | None \<Rightarrow>
          bind (serializeItems rec (case deref h source of Some (OArray xs) \<Rightarrow> xs | _ \<Rightarrow> []) []
                  (tbl @ [(source, None)]) c)
            (\<lambda>items tbl' c'. ret (IArray items (Slot (length tbl))) tbl' c'))"

definition serializeBuiltInType ::
  "host \<Rightarrow> (jsval \<Rightarrow> IAlreadySerialized list \<Rightarrow> nat \<Rightarrow> prenode enc) \<Rightarrow> heap \<Rightarrow> jsval
     \<Rightarrow> IAlreadySerialized list \<Rightarrow> nat \<Rightarrow> prenode enc"
where
  "serializeBuiltInType hst rec h source tbl c =
     (case findAlreadySerialized source tbl c of
        Some (existing, tbl', c') \<Rightarrow> ret existing tbl' c'
      | None \<Rightarrow>
          (case deref h source of
             Some (ODate t) \<Rightarrow> ret (IBuiltInDate (dateToString hst t)) tbl c
           | Some (OMap entries) \<Rightarrow>
               bind (serializeEntries rec entries [] (tbl @ [(source, None)]) c)
                 (\<lambda>v tbl' c'. ret (IBuiltInMap v (Slot (length tbl))) tbl' c')
           | Some (OSet entries) \<Rightarrow>
               bind (serializeItems rec entries [] (tbl @ [(source, None)]) c)
                 (\<lambda>v tbl' c'. ret (IBuiltInSet v (Slot (length tbl))) tbl' c')
           | Some (ORegExp src flags) \<Rightarrow>
               ret (IBuiltInRegExp (slice 1 (- 1) (regExpToString src flags)) (Slot (length tbl)))
                 (tbl @ [(source, None)]) c
           | _ \<Rightarrow> throw UnknownBuiltin c))"

definition primitiveOf :: "jsval \<Rightarrow> primitive" where
  "primitiveOf source = (case source of VPrimitive p \<Rightarrow> p | _ \<Rightarrow> PUndefined)"

definition symbolDescription :: "jsval \<Rightarrow> string" where
  "symbolDescription source = (case source of VSymbol i d \<Rightarrow> d | _ \<Rightarrow> [])"

definition functionName :: "jsval \<Rightarrow> string" where
  "functionName source = (case source of VFunction i n \<Rightarrow> n | _ \<Rightarrow> [])"

definition fromHook :: "error + serialized \<Rightarrow> IAlreadySerialized list \<Rightarrow> nat \<Rightarrow> prenode enc" where
  "fromHook r tbl c = (case r of Inl e \<Rightarrow> throw e c | Inr n \<Rightarrow> ret (map_node Fixed n) tbl c)"

fun doSerialize ::
  "nat \<Rightarrow> host \<Rightarrow> IConstructorAlias list \<Rightarrow> ISerializationOptions \<Rightarrow> heap \<Rightarrow> jsval
     \<Rightarrow> IAlreadySerialized list \<Rightarrow> nat \<Rightarrow> prenode enc"
where
  "doSerialize 0 hst constructors options h source tbl c = None"
| "doSerialize (Suc fuel) hst constructors options h source tbl c =
     (if isPrimitiveType source then ret (Primitive (primitiveOf source)) tbl c
      else if isSymbol source then
        (case serializeSymbol options of
           Some f \<Rightarrow> fromHook (f source) tbl c
         | None \<Rightarrow> ret (ISymbol (slice 7 (- 1) (symbolToString (symbolDescription source)))) tbl c)
      else if isFunction source then
        (case serializeFunction options of
           Some f \<Rightarrow> fromHook (f source) tbl c
         | None \<Rightarrow> ret (IFunction (functionName source)) tbl c)
      else if isBuiltInType h source then
        serializeBuiltInType hst (doSerialize fuel hst constructors options h) h source tbl c
      else if isArray h source then
        serializeArray (doSerialize fuel hst constructors options h) h source tbl c
      else if isObjectLiteral h source then
        serializeObjectLiteral (doSerialize fuel hst constructors options h) h source tbl c
      else if isInstance h source then
        serializeInstance hst constructors (doSerialize fuel hst constructors options h) h source tbl c
      else throw UnsupportedValue c)"

text \<open>The \<^verbatim>\<open>id\<close> of a node as the table holds it when the traversal has ended.\<close>

definition slotId :: "IAlreadySerialized list \<Rightarrow> idref \<Rightarrow> nat option" where
  "slotId tbl r =
     (case r of Slot k \<Rightarrow> (if k < length tbl then snd (tbl ! k) else None) | Fixed i \<Rightarrow> i)"

text \<open>
  The closure the factory returns, \<^verbatim>\<open>(source) => doSerialize(source, [])\<close>.  The
  counter is a variable of the factory: the call receives its value and leaves the new
  value behind, also when it throws.
\<close>

definition serialize ::
  "nat \<Rightarrow> host \<Rightarrow> IConstructorAlias list \<Rightarrow> ISerializationOptions \<Rightarrow> heap \<Rightarrow> nat \<Rightarrow> jsval
     \<Rightarrow> ((error + serialized) \<times> nat) option"
where
  "serialize fuel hst constructors options h counter source =
     (case doSerialize fuel hst constructors options h source [] counter of
        None \<Rightarrow> None
      | Some (Inl e, c) \<Rightarrow> Some (Inl e, c)
      | Some (Inr (n, tbl), c) \<Rightarrow> Some (Inr (map_node (slotId tbl) n), c))"

section \<open>The decoder (\<^verbatim>\<open>deserialize.ts\<close>)\<close>

text \<open>
  The decoder creates objects and fills them in afterwards.  \<^verbatim>\<open>alreadyDeserialized\<close>
  pairs the node with the object made for it.
\<close>

type_synonym 'a decr = "(error + 'a \<times> IAlreadyDeserialized list \<times> world) option"

definition retD :: "'a \<Rightarrow> IAlreadyDeserialized list \<Rightarrow> world \<Rightarrow> 'a decr" where
  "retD x tbl w = Some (Inr (x, tbl, w))"

definition throwD :: "error \<Rightarrow> 'a decr" where
  "throwD e = Some (Inl e)"

definition bindD :: "'a decr \<Rightarrow> ('a \<Rightarrow> IAlreadyDeserialized list \<Rightarrow> world \<Rightarrow> 'b decr) \<Rightarrow> 'b decr" where
  "bindD r k =
     (case r of
        None \<Rightarrow> None
      | Some (Inl e) \<Rightarrow> Some (Inl e)
      | Some (Inr (x, tbl, w)) \<Rightarrow> k x tbl w)"

definition alloc :: "jsobj \<Rightarrow> world \<Rightarrow> addr \<times> world" where
  "alloc obj w = (length (objects w), w\<lparr>objects := objects w @ [obj]\<rparr>)"

text \<open>
  \<^verbatim>\<open>result[key] = v\<close> on a decoded record or instance.  The key \<^verbatim>\<open>__proto__\<close>
  reaches the setter of \<^verbatim>\<open>Object.prototype\<close>: no property is created; null empties
  the prototype chain, an object becomes the prototype of the result (the result itself
  is refused with a TypeError), any other value is ignored.  An object keeps of its
  prototype chain the classes on it: of the object that becomes the prototype its
  classes are kept, not its properties.
\<close>

definition protoClasses :: "heap \<Rightarrow> addr \<Rightarrow> jsclass list" where
  "protoClasses h b = (case lookup h b of Some (OObject chain props) \<Rightarrow> chain | _ \<Rightarrow> [objectClass])"

definition assignProp :: "addr \<Rightarrow> string \<Rightarrow> jsval \<Rightarrow> world \<Rightarrow> error + world" where
  "assignProp a key v w =
     (case lookup (objects w) a of
        Some (OObject chain props) \<Rightarrow>
          (if key = ''__proto__'' then
             (case v of
                VObject b \<Rightarrow>
                  if b = a then Inl TypeError
                  else Inr (w\<lparr>objects := (objects w)[a := OObject (protoClasses (objects w) b) props]\<rparr>)
              | VPrimitive PNull \<Rightarrow> Inr (w\<lparr>objects := (objects w)[a := OObject [] props]\<rparr>)
              | _ \<Rightarrow> Inr w)
           else Inr (w\<lparr>objects := (objects w)[a := OObject chain (AList.update key v props)]\<rparr>))
      | _ \<Rightarrow> Inr w)"

text \<open>
  \<^verbatim>\<open>result.push(v)\<close>, \<^verbatim>\<open>result.set(k, v)\<close>, \<^verbatim>\<open>result.add(v)\<close>.  A \<^verbatim>\<open>Map\<close>
  and a \<^verbatim>\<open>Set\<close> compare keys by identity, with \<^verbatim>\<open>NaN\<close> equal to itself, and
  store \<^verbatim>\<open>-0\<close> as \<^verbatim>\<open>0\<close>.
\<close>

definition normKey :: "jsval \<Rightarrow> jsval" where
  "normKey v = (if v = VPrimitive PNegZero then VPrimitive (PNumber 0) else v)"

definition pushItem :: "addr \<Rightarrow> jsval \<Rightarrow> world \<Rightarrow> world" where
  "pushItem a v w =
     (case lookup (objects w) a of
        Some (OArray xs) \<Rightarrow> w\<lparr>objects := (objects w)[a := OArray (xs @ [v])]\<rparr>
      | _ \<Rightarrow> w)"

definition mapSet :: "addr \<Rightarrow> jsval \<Rightarrow> jsval \<Rightarrow> world \<Rightarrow> world" where
  "mapSet a k v w =
     (case lookup (objects w) a of
        Some (OMap es) \<Rightarrow> w\<lparr>objects := (objects w)[a := OMap (AList.update (normKey k) v es)]\<rparr>
      | _ \<Rightarrow> w)"

definition setAdd :: "addr \<Rightarrow> jsval \<Rightarrow> world \<Rightarrow> world" where
  "setAdd a v w =
     (case lookup (objects w) a of
        Some (OSet xs) \<Rightarrow>
          w\<lparr>objects := (objects w)[a := OSet (if normKey v \<in> set xs then xs else xs @ [normKey v])]\<rparr>
      | _ \<Rightarrow> w)"

text \<open>The \<^verbatim>\<open>type\<close> tag and the \<^verbatim>\<open>id\<close> of a node that is not a primitive.\<close>

fun nodeType :: "'i node \<Rightarrow> string option" where
  "nodeType (Primitive p) = None"
| "nodeType (ISymbol v) = Some ''symbol''"
| "nodeType (IFunction v) = Some ''function''"
| "nodeType (IObjectLiteral fs i) = Some ''object''"
| "nodeType (IBuiltInDate v) = Some ''builtin''"
| "nodeType (IBuiltInMap v i) = Some ''builtin''"
| "nodeType (IBuiltInSet v i) = Some ''builtin''"
| "nodeType (IBuiltInRegExp v i) = Some ''builtin''"
| "nodeType (IInstance cls props i) = Some ''instance''"
| "nodeType (ICustomSerializedObject cls v i) = Some ''custom''"
| "nodeType (IArray items i) = Some ''array''"
| "nodeType (IReference i) = Some ''reference''"
| "nodeType (Raw fs) = None"

fun nodeId :: "serialized \<Rightarrow> nat option" where
  "nodeId (IObjectLiteral fs i) = i"
| "nodeId (IBuiltInMap v i) = i"
| "nodeId (IBuiltInSet v i) = i"
| "nodeId (IBuiltInRegExp v i) = i"
| "nodeId (IInstance cls props i) = i"
| "nodeId (ICustomSerializedObject cls v i) = i"
| "nodeId (IArray items i) = i"
| "nodeId (IReference i) = Some i"
| "nodeId n = None"

definition isPrimitiveType_node :: "'i node \<Rightarrow> bool" where
  "isPrimitiveType_node source = (case source of Primitive p \<Rightarrow> True | _ \<Rightarrow> False)"

definition isSymbol_node :: "'i node \<Rightarrow> bool" where
  "isSymbol_node source \<longleftrightarrow> \<not> isPrimitiveType_node source \<and> nodeType source = Some ''symbol''"

definition isFunction_node :: "'i node \<Rightarrow> bool" where
  "isFunction_node source \<longleftrightarrow> \<not> isPrimitiveType_node source \<and> nodeType source = Some ''function''"

definition isBuiltInType_node :: "'i node \<Rightarrow> bool" where
  "isBuiltInType_node source \<longleftrightarrow> \<not> isPrimitiveType_node source \<and> nodeType source = Some ''builtin''"

definition isArray_node :: "'i node \<Rightarrow> bool" where
  "isArray_node source \<longleftrightarrow> \<not> isPrimitiveType_node source \<and> nodeType source = Some ''array''"

definition isObjectLiteral_node :: "'i node \<Rightarrow> bool" where
  "isObjectLiteral_node source \<longleftrightarrow> \<not> isPrimitiveType_node source \<and> nodeType source = Some ''object''"

definition isCustomSerializedObject :: "'i node \<Rightarrow> bool" where
  "isCustomSerializedObject source \<longleftrightarrow> \<not> isPrimitiveType_node source \<and> nodeType source = Some ''custom''"

definition isInstance_node :: "'i node \<Rightarrow> bool" where
  "isInstance_node source \<longleftrightarrow> \<not> isPrimitiveType_node source \<and> nodeType source = Some ''instance''"

definition isReference :: "'i node \<Rightarrow> bool" where
  "isReference source \<longleftrightarrow> \<not> isPrimitiveType_node source \<and> nodeType source = Some ''reference''"

text \<open>\<^verbatim>\<open>source.value[key]\<close> and \<^verbatim>\<open>source.props[key]\<close>: the node, or undefined.\<close>

definition getField :: "(string \<times> serialized) list \<Rightarrow> string \<Rightarrow> serialized" where
  "getField fs key = (case map_of fs key of Some n \<Rightarrow> n | None \<Rightarrow> Primitive PUndefined)"

text \<open>The loops of the decoder, over the callback \<open>rec\<close> into \<^verbatim>\<open>doDeserialize\<close>.\<close>

fun deserializeProps ::
  "(serialized \<Rightarrow> IAlreadyDeserialized list \<Rightarrow> world \<Rightarrow> jsval decr) \<Rightarrow> addr
     \<Rightarrow> (string \<times> serialized) list \<Rightarrow> string list \<Rightarrow> IAlreadyDeserialized list \<Rightarrow> world \<Rightarrow> unit decr"
where
  "deserializeProps rec result fs [] tbl w = retD () tbl w"
| "deserializeProps rec result fs (key # keys) tbl w =
     bindD (rec (getField fs key) tbl w)
       (\<lambda>v tbl' w'.
          case assignProp result key v w' of
            Inl e \<Rightarrow> throwD e
          | Inr w'' \<Rightarrow> deserializeProps rec result fs keys tbl' w'')"

fun deserializeItems ::
  "(serialized \<Rightarrow> IAlreadyDeserialized list \<Rightarrow> world \<Rightarrow> jsval decr) \<Rightarrow> addr
     \<Rightarrow> serialized list \<Rightarrow> IAlreadyDeserialized list \<Rightarrow> world \<Rightarrow> unit decr"
where
  "deserializeItems rec result [] tbl w = retD () tbl w"
| "deserializeItems rec result (item # items) tbl w =
     bindD (rec item tbl w)
       (\<lambda>v tbl' w'. deserializeItems rec result items tbl' (pushItem result v w'))"

fun deserializeMembers ::
  "(serialized \<Rightarrow> IAlreadyDeserialized list \<Rightarrow> world \<Rightarrow> jsval decr) \<Rightarrow> addr
     \<Rightarrow> serialized list \<Rightarrow> IAlreadyDeserialized list \<Rightarrow> world \<Rightarrow> unit decr"
where
  "deserializeMembers rec result [] tbl w = retD () tbl w"
| "deserializeMembers rec result (entry # entries) tbl w =
     bindD (rec entry tbl w)
       (\<lambda>v tbl' w'. deserializeMembers rec result entries tbl' (setAdd result v w'))"

fun deserializeEntries ::
  "(serialized \<Rightarrow> IAlreadyDeserialized list \<Rightarrow> world \<Rightarrow> jsval decr) \<Rightarrow> addr
     \<Rightarrow> (serialized \<times> serialized) list \<Rightarrow> IAlreadyDeserialized list \<Rightarrow> world \<Rightarrow> unit decr"
where
  "deserializeEntries rec result [] tbl w = retD () tbl w"
| "deserializeEntries rec result ((key, val) # entries) tbl w =
     bindD (rec key tbl w) (\<lambda>k tbl1 w1.
       bindD (rec val tbl1 w1) (\<lambda>v tbl2 w2.
         deserializeEntries rec result entries tbl2 (mapSet result k v w2)))"

definition deserializeBuiltInType ::
  "host \<Rightarrow> (serialized \<Rightarrow> IAlreadyDeserialized list \<Rightarrow> world \<Rightarrow> jsval decr) \<Rightarrow> serialized
     \<Rightarrow> IAlreadyDeserialized list \<Rightarrow> world \<Rightarrow> jsval decr"
where
  "deserializeBuiltInType hst rec source tbl w =
     (case source of
        IBuiltInDate v \<Rightarrow>
          (case alloc (ODate (dateParse hst v)) w of (result, w') \<Rightarrow> retD (VObject result) tbl w')
      | IBuiltInMap v i \<Rightarrow>
          (case alloc (OMap []) w of (result, w') \<Rightarrow>
             bindD (deserializeEntries rec result v (tbl @ [(source, VObject result)]) w')
               (\<lambda>u tbl' w''. retD (VObject result) tbl' w''))
      | IBuiltInSet v i \<Rightarrow>
          (case alloc (OSet []) w of (result, w') \<Rightarrow>
             bindD (deserializeMembers rec result v (tbl @ [(source, VObject result)]) w')
               (\<lambda>u tbl' w''. retD (VObject result) tbl' w''))
      | IBuiltInRegExp v i \<Rightarrow>
          (case compileRegExp hst v of
             None \<Rightarrow> throwD SyntaxError
           | Some src \<Rightarrow>
               (case alloc (ORegExp src []) w of (result, w') \<Rightarrow>
                  retD (VObject result) (tbl @ [(source, VObject result)]) w'))
      | _ \<Rightarrow> throwD UnknownBuiltin)"

definition deserializeArray ::
  "(serialized \<Rightarrow> IAlreadyDeserialized list \<Rightarrow> world \<Rightarrow> jsval decr) \<Rightarrow> serialized
     \<Rightarrow> IAlreadyDeserialized list \<Rightarrow> world \<Rightarrow> jsval decr"
where
  "deserializeArray rec source tbl w =
     (case alloc (OArray []) w of (result, w') \<Rightarrow>
        bindD (deserializeItems rec result (case source of IArray items i \<Rightarrow> items | _ \<Rightarrow> [])
                 (tbl @ [(source, VObject result)]) w')
          (\<lambda>u tbl' w''. retD (VObject result) tbl' w''))"

definition deserializeObjectLiteral ::
  "(serialized \<Rightarrow> IAlreadyDeserialized list \<Rightarrow> world \<Rightarrow> jsval decr) \<Rightarrow> serialized
     \<Rightarrow> IAlreadyDeserialized list \<Rightarrow> world \<Rightarrow> jsval decr"
where
  "deserializeObjectLiteral rec source tbl w =
     (case alloc (OObject [objectClass] []) w of (result, w') \<Rightarrow>
        (let fs = (case source of IObjectLiteral fs i \<Rightarrow> fs | _ \<Rightarrow> []) in
         bindD (deserializeProps rec result fs (map fst fs)
                  (tbl @ [(source, VObject result)]) w')
           (\<lambda>u tbl' w''. retD (VObject result) tbl' w'')))"

definition deserializeReference ::
  "serialized \<Rightarrow> IAlreadyDeserialized list \<Rightarrow> world \<Rightarrow> jsval decr"
where
  "deserializeReference source tbl w =
     (case find (\<lambda>i. nodeId (fst i) = nodeId source) tbl of
        Some item \<Rightarrow> retD (snd item) tbl w
      | None \<Rightarrow> throwD (DanglingReference (case source of IReference i \<Rightarrow> i | _ \<Rightarrow> 0)))"

text \<open>
  \<^verbatim>\<open>new customCtor.ctor()\<close>: a new object whose prototype chain is the class and the
  classes it extends, on which the body of the constructor runs.
\<close>

definition newInstance :: "host \<Rightarrow> jsclass \<Rightarrow> world \<Rightarrow> (error + addr \<times> world) option" where
  "newInstance hst c w =
     (case alloc (OObject (c # superclasses hst c) []) w of (result, w') \<Rightarrow>
        (case construct hst c result w' of
           None \<Rightarrow> None
         | Some (Inl e) \<Rightarrow> Some (Inl e)
         | Some (Inr w'') \<Rightarrow> Some (Inr (result, w''))))"

text \<open>
  \<^verbatim>\<open>source.class === c.name || source.class === c.ctor.name\<close>; the \<^verbatim>\<open>name\<close> of an
  entry without alias is undefined.
\<close>

definition matchesClass :: "jsval \<Rightarrow> IConstructorAlias \<Rightarrow> bool" where
  "matchesClass cls c \<longleftrightarrow>
     cls = (case name c of Some n \<Rightarrow> JSString n | None \<Rightarrow> JSUndefined)
     \<or> cls = JSString (cname (ctor c))"

definition deserializeInstance ::
  "host \<Rightarrow> IConstructorAlias list \<Rightarrow> (serialized \<Rightarrow> IAlreadyDeserialized list \<Rightarrow> world \<Rightarrow> jsval decr)
     \<Rightarrow> serialized \<Rightarrow> IAlreadyDeserialized list \<Rightarrow> world \<Rightarrow> jsval decr"
where
  "deserializeInstance hst constructors rec source tbl w =
     (case source of
        IInstance cls props i \<Rightarrow>
          (case find (matchesClass cls) constructors of
             Some customCtor \<Rightarrow>
               (case newInstance hst (ctor customCtor) w of
                  None \<Rightarrow> None
                | Some (Inl e) \<Rightarrow> throwD e
                | Some (Inr (result, w')) \<Rightarrow>
                    bindD (deserializeProps rec result props (map fst props)
                             (tbl @ [(source, VObject result)]) w')
                      (\<lambda>u tbl' w''. retD (VObject result) tbl' w''))
           | None \<Rightarrow> retD JSUndefined tbl w)
      | _ \<Rightarrow> retD JSUndefined tbl w)"

definition deserializeCustomSerializedObject ::
  "host \<Rightarrow> IConstructorAlias list \<Rightarrow> (serialized \<Rightarrow> IAlreadyDeserialized list \<Rightarrow> world \<Rightarrow> jsval decr)
     \<Rightarrow> serialized \<Rightarrow> IAlreadyDeserialized list \<Rightarrow> world \<Rightarrow> jsval decr"
where
  "deserializeCustomSerializedObject hst constructors rec source tbl w =
     (case source of
        ICustomSerializedObject cls v i \<Rightarrow>
          (case find (matchesClass cls) constructors of
             Some customCtor \<Rightarrow>
               (case deserializer customCtor of
                  Some hook \<Rightarrow> hook v source tbl rec w
                | None \<Rightarrow> throwD (interpolated hst (objects w) MissingDeserializer cls))
           | None \<Rightarrow> throwD (interpolated hst (objects w) MissingDeserializer cls))
      | _ \<Rightarrow> throwD (MissingDeserializer JSUndefined))"

definition fromHookD :: "error + jsval \<Rightarrow> IAlreadyDeserialized list \<Rightarrow> world \<Rightarrow> jsval decr" where
  "fromHookD r tbl w = (case r of Inl e \<Rightarrow> throwD e | Inr v \<Rightarrow> retD v tbl w)"

definition nodeValue :: "serialized \<Rightarrow> string" where
  "nodeValue source = (case source of ISymbol v \<Rightarrow> v | IFunction v \<Rightarrow> v | _ \<Rightarrow> [])"

fun doDeserialize ::
  "nat \<Rightarrow> host \<Rightarrow> IConstructorAlias list \<Rightarrow> ISerializationOptions \<Rightarrow> serialized
     \<Rightarrow> IAlreadyDeserialized list \<Rightarrow> world \<Rightarrow> jsval decr"
where
  "doDeserialize 0 hst constructors options source tbl w = None"
| "doDeserialize (Suc fuel) hst constructors options source tbl w =
     (if isPrimitiveType_node source then
        retD (VPrimitive (case source of Primitive p \<Rightarrow> p | _ \<Rightarrow> PUndefined)) tbl w
      else if isSymbol_node source then
        (case deserializeSymbol options of
           Some f \<Rightarrow> fromHookD (f (nodeValue source)) tbl w
         | None \<Rightarrow>
             retD (VSymbol (nextSymbol w) (nodeValue source)) tbl (w\<lparr>nextSymbol := nextSymbol w + 1\<rparr>))
      else if isFunction_node source then
        (case deserializeFunction options of
           Some f \<Rightarrow> fromHookD (f (nodeValue source)) tbl w
         | None \<Rightarrow> retD (VPrimitive (PString (nodeValue source))) tbl w)
      else if isBuiltInType_node source then
        deserializeBuiltInType hst (doDeserialize fuel hst constructors options) source tbl w
      else if isArray_node source then
        deserializeArray (doDeserialize fuel hst constructors options) source tbl w
      else if isObjectLiteral_node source then
        deserializeObjectLiteral (doDeserialize fuel hst constructors options) source tbl w
      else if isCustomSerializedObject source then
        deserializeCustomSerializedObject hst constructors (doDeserialize fuel hst constructors options)
          source tbl w
      else if isInstance_node source then
        deserializeInstance hst constructors (doDeserialize fuel hst constructors options) source
          tbl w
      else if isReference source then deserializeReference source tbl w
      else throwD UnableToDeserialize)"

text \<open>The closure the factory returns, \<^verbatim>\<open>(source) => doDeserialize(source, [])\<close>.\<close>

definition deserialize ::
  "nat \<Rightarrow> host \<Rightarrow> IConstructorAlias list \<Rightarrow> ISerializationOptions \<Rightarrow> serialized \<Rightarrow> world
     \<Rightarrow> (error + jsval \<times> world) option"
where
  "deserialize fuel hst constructors options source w =
     (case doDeserialize fuel hst constructors options source [] w of
        None \<Rightarrow> None
      | Some (Inl e) \<Rightarrow> Some (Inl e)
      | Some (Inr (v, tbl, w')) \<Rightarrow> Some (Inr (v, w')))"

section \<open>The classifier\<close>

text \<open>
  The kinds of value of the specification.  \<open>kindTests\<close> lists the tests of
  \<^verbatim>\<open>doSerialize\<close> in the order in which it makes them, each with the kind of its
  branch, and \<open>valueKind\<close> is the kind of the first test that holds: none when no test
  holds, where \<^verbatim>\<open>doSerialize\<close> throws.
\<close>

datatype value_kind = KPrimitive | KSymbol | KFunction | KBuiltIn | KArray | KRecord | KInstance

definition kindTests :: "heap \<Rightarrow> jsval \<Rightarrow> (bool \<times> value_kind) list" where
  "kindTests h source =
     [(isPrimitiveType source, KPrimitive), (isSymbol source, KSymbol), (isFunction source, KFunction),
      (isBuiltInType h source, KBuiltIn), (isArray h source, KArray),
      (isObjectLiteral h source, KRecord), (isInstance h source, KInstance)]"

definition valueKind :: "heap \<Rightarrow> jsval \<Rightarrow> value_kind option" where
  "valueKind h source = map_option snd (find fst (kindTests h source))"



section \<open>The registry lookup of the encoder as the specification words it\<close>




section \<open>Concrete inputs\<close>

text \<open>
  A host whose classes extend \<^verbatim>\<open>Object\<close> only and have constructors with an empty
  body.
\<close>

definition plainHost :: host where
  "plainHost =
     \<lparr>dateToString = (\<lambda>t. ''Thu Jan 01 1970''), dateParse = (\<lambda>s. Some 0),
      compileRegExp = (\<lambda>p. Some p), objectToString = (\<lambda>h a. None),
      superclasses = (\<lambda>c. [objectClass]),
      construct = (\<lambda>c a w. Some (Inr w))\<rparr>"

definition noOptions :: ISerializationOptions where
  "noOptions =
     \<lparr>serializeSymbol = None, serializeFunction = None, deserializeSymbol = None,
      deserializeFunction = None\<rparr>"

definition emptyWorld :: world where
  "emptyWorld = \<lparr>objects = [], nextSymbol = 0\<rparr>"

text \<open>The record \<^verbatim>\<open>{x: 10, y: 20}\<close> whose field \<^verbatim>\<open>circular\<close> is the record itself.\<close>

definition circularRecord :: heap where
  "circularRecord =
     [OObject [objectClass]
        [(''x'', VPrimitive (PNumber 10)), (''y'', VPrimitive (PNumber 20)),
         (''circular'', VObject 0)]]"

definition circularNode :: serialized where
  "circularNode =
     IObjectLiteral
       [(''x'', Primitive (PNumber 10)), (''y'', Primitive (PNumber 20)),
        (''circular'', IReference 0)]
       (Some 0)"

text \<open>
  Registry entries for a class \<^verbatim>\<open>Human\<close>: a bare one, one with the alias
  \<^verbatim>\<open>Person\<close>, and one with a serializer hook that encodes the field \<^verbatim>\<open>name\<close>.
\<close>

definition humanEntry :: IConstructorAlias where
  "humanEntry = \<lparr>name = None, ctor = JSClass 1 ''Human'', serializer = None, deserializer = None\<rparr>"



section \<open>The ids in the table\<close>

text \<open>The initial value of the counter, \<^verbatim>\<open>let counter = 0\<close> in the factory.\<close>

definition initialCounter :: nat where
  "initialCounter = 0"

text \<open>The ids that the results in the table carry, in the order of the entries.\<close>

fun tableIds :: "IAlreadySerialized list \<Rightarrow> nat list" where
  "tableIds [] = []"
| "tableIds ((s, None) # tbl) = tableIds tbl"
| "tableIds ((s, Some i) # tbl) = i # tableIds tbl"

text \<open>
  The ids in the table are the counter values from \<open>c0\<close> up to the current one, each
  once; and an encoder step that keeps this.
\<close>

definition idsFrom :: "nat \<Rightarrow> IAlreadySerialized list \<Rightarrow> nat \<Rightarrow> bool" where
  "idsFrom c0 tbl c \<longleftrightarrow> distinct (tableIds tbl) \<and> set (tableIds tbl) = {c0..<c} \<and> c0 \<le> c"

definition keepsIds :: "nat \<Rightarrow> ('v \<Rightarrow> IAlreadySerialized list \<Rightarrow> nat \<Rightarrow> 'a enc) \<Rightarrow> bool" where
  "keepsIds c0 step \<longleftrightarrow>
     (\<forall>v tbl c r c'. idsFrom c0 tbl c \<longrightarrow> step v tbl c = Some (r, c') \<longrightarrow>
        c \<le> c' \<and> (\<forall>t tbl'. r = Inr (t, tbl') \<longrightarrow> idsFrom c0 tbl' c'))"

section \<open>Positions in a graph of values and in a node\<close>

text \<open>
  A position is the list of steps that leads to it from the root: the name of a field
  of a record, the index of an item of an array, the index of an entry of a
  \<^verbatim>\<open>Map\<close> together with the side (key or value), the index of a member of a
  \<^verbatim>\<open>Set\<close> (entries and members counted in insertion order).
\<close>

datatype step = Field string | Index nat | EntryKey nat | EntryVal nat | Member nat





text \<open>
  The identities that the table shares: every object but a \<^verbatim>\<open>Date\<close>.  A full node
  is a node that the encoder enters in the table when it creates it.
\<close>

definition shared :: "heap \<Rightarrow> addr \<Rightarrow> bool" where
  "shared h a = (case lookup h a of None \<Rightarrow> False | Some (ODate t) \<Rightarrow> False | Some obj \<Rightarrow> True)"

fun fullNode :: "'i node \<Rightarrow> bool" where
  "fullNode (IObjectLiteral fs i) = True"
| "fullNode (IBuiltInMap es i) = True"
| "fullNode (IBuiltInSet xs i) = True"
| "fullNode (IBuiltInRegExp v i) = True"
| "fullNode (IInstance cls props i) = True"
| "fullNode (ICustomSerializedObject cls v i) = True"
| "fullNode (IArray items i) = True"
| "fullNode t = False"







section \<open>The traversal of the encoder, as a relation\<close>

text \<open>
  The children of an object in the order in which both traversals visit them, and the
  node of an object from the nodes of its children.
\<close>

fun kids :: "jsobj \<Rightarrow> jsval list" where
  "kids (ODate t) = []"
| "kids (OMap es) = concat (map (\<lambda>e. [fst e, snd e]) es)"
| "kids (OSet xs) = xs"
| "kids (ORegExp src flags) = []"
| "kids (OArray xs) = xs"
| "kids (OObject chain props) = map snd props"

fun pairs :: "'a list \<Rightarrow> ('a \<times> 'a) list" where
  "pairs (x # y # zs) = (x, y) # pairs zs"
| "pairs zs = []"







definition unvisited :: "heap \<Rightarrow> IAlreadySerialized list \<Rightarrow> addr set" where
  "unvisited h tbl = {a. a < length h \<and> shared h a \<and> VObject a \<notin> fst ` set tbl}"



section \<open>The decoder run on the output of the encoder\<close>









section \<open>Steps and children\<close>





section \<open>Evaluation lemmas\<close>

lemmas enc_defs = ret_def throw_def bind_def serializeObjectLiteral_def serializeArray_def
  serializeBuiltInType_def serializeInstance_def isPrimitiveType_def isSymbol_def isFunction_def
  isBuiltInType_def isArray_def isObjectLiteral_def isInstance_def deref_def lookup_def
  constructorName_def ownProps_def getProp_def objectClass_def primitiveOf_def slotId_def
  serialize_def instanceOf_def className_def fromHook_def symbolDescription_def functionName_def
  symbolToString_def regExpToString_def slice_def interpolated_def setField_def

lemmas dec_defs = retD_def throwD_def bindD_def alloc_def assignProp_def pushItem_def mapSet_def
  setAdd_def isPrimitiveType_node_def isSymbol_node_def isFunction_node_def isBuiltInType_node_def
  isArray_node_def isObjectLiteral_node_def isCustomSerializedObject_def isInstance_node_def
  isReference_def getField_def deserializeBuiltInType_def deserializeArray_def
  deserializeObjectLiteral_def deserializeReference_def deserializeInstance_def
  deserializeCustomSerializedObject_def deserialize_def lookup_def objectClass_def
  fromHookD_def nodeValue_def matchesClass_def newInstance_def interpolated_def normKey_def
  protoClasses_def


lemma findAlreadySerialized_None:
  "findAlreadySerialized source tbl c = None \<longleftrightarrow> source \<notin> fst ` set tbl"
  by (induction tbl) (auto split: option.splits if_splits)

section \<open>Round trip of a regular expression\<close>

text \<open>
  Claim C1 (round trip of values built from primitives, plain records, arrays and the
  four built-ins) fails on a regular expression with flags.  The encoder takes the
  pattern to be \<^verbatim>\<open>toString()\<close> without its first and last character; for
  \<^verbatim>\<open>/abcd/g\<close> that is \<^verbatim>\<open>abcd/\<close>, and whatever the host compiles from it, the
  decoded expression has no flags (or the decoder throws).
\<close>

theorem regexp_flags_lost:
  "serialize (Suc fuel) hst cs opts [ORegExp ''abcd'' ''g''] c (VObject 0)
     = Some (Inr (IBuiltInRegExp ''abcd/'' None), c)
   \<and> deserialize (Suc fuel) hst cs opts (IBuiltInRegExp ''abcd/'' None) w
     = (case compileRegExp hst ''abcd/'' of
          None \<Rightarrow> Some (Inl SyntaxError)
        | Some src \<Rightarrow>
            Some (Inr (VObject (length (objects w)), w\<lparr>objects := objects w @ [ORegExp src []]\<rparr>)))"
  by (simp add: enc_defs dec_defs split: option.splits)

section \<open>The self-referencing record\<close>

text \<open>
  Claim C3: serializing the record \<^verbatim>\<open>{x: 10, y: 20}\<close> whose field \<^verbatim>\<open>circular\<close>
  is the record itself yields a record node with id 0 whose field \<^verbatim>\<open>circular\<close> is a
  reference with id 0; deserializing that node yields a record whose field
  \<^verbatim>\<open>circular\<close> is the record itself.  The new record lives at the next free address of
  the world the decoder runs in.
\<close>

theorem circular_record_example:
  "serialize (Suc (Suc fuel)) hst cs opts circularRecord 0 (VObject 0) = Some (Inr circularNode, 1)
   \<and> circularNode =
       IObjectLiteral
         [(''x'', Primitive (PNumber 10)), (''y'', Primitive (PNumber 20)),
          (''circular'', IReference 0)]
         (Some 0)
   \<and> deserialize (Suc (Suc fuel)) hst cs opts circularNode w =
       Some (Inr (VObject (length (objects w)),
         w\<lparr>objects := objects w @
            [OObject [objectClass]
               [(''x'', VPrimitive (PNumber 10)), (''y'', VPrimitive (PNumber 20)),
                (''circular'', VObject (length (objects w)))]]\<rparr>))"
  by (simp add: enc_defs dec_defs circularRecord_def circularNode_def)

section \<open>The registry lookup of the encoder\<close>




section \<open>Unknown classes in the decoder\<close>

text \<open>
  Claim C5 as stated fails: an instance node whose class matches no entry is decoded to
  \<^verbatim>\<open>undefined\<close> without any error, and a custom node whose class matches no entry
  fails with the same error as one whose entry has no deserializer hook.
\<close>

theorem unknown_class_in_decoder:
  "deserialize 1 plainHost [] noOptions (IInstance (JSString ''Ghost'') [] None) emptyWorld
     = Some (Inr (VPrimitive PUndefined, emptyWorld))
   \<and> deserialize 1 plainHost [] noOptions
        (ICustomSerializedObject (JSString ''Ghost'') (Primitive PNull) None) emptyWorld
     = Some (Inl (MissingDeserializer (JSString ''Ghost'')))
   \<and> deserialize 1 plainHost
        [\<lparr>name = None, ctor = JSClass 1 ''Ghost'', serializer = None, deserializer = None\<rparr>] noOptions
        (ICustomSerializedObject (JSString ''Ghost'') (Primitive PNull) None) emptyWorld
     = Some (Inl (MissingDeserializer (JSString ''Ghost'')))"
  by (simp add: dec_defs)

text \<open>
  Claim C5, amended: when the decoder meets a custom node whose class name matches
  neither the alias nor the intrinsic constructor name of any registry entry, or whose
  first matching entry has no deserializer hook, it fails with the MissingDeserializer
  error, the same in both cases.  (The class of a node is a string; were it a symbol or
  an object, its conversion to the text of the message could throw first.)
\<close>

theorem custom_node_missing_deserializer:
  assumes "find (matchesClass cls) cs = None
           \<or> (\<exists>cc. find (matchesClass cls) cs = Some cc \<and> deserializer cc = None)"
  shows "doDeserialize (Suc fuel) hst cs opts (ICustomSerializedObject cls v i) tbl w
           = Some (Inl (interpolated hst (objects w) MissingDeserializer cls))
     \<and> interpolated hst (objects w) MissingDeserializer (JSString s) = MissingDeserializer (JSString s)"
  using assms by (auto simp: dec_defs)

theorem custom_node_missing_deserializer_witness:
  "doDeserialize 1 plainHost [] noOptions
       (ICustomSerializedObject (JSString ''Ghost'') (Primitive PNull) None) [] emptyWorld
     = Some (Inl (MissingDeserializer (JSString ''Ghost'')))
   \<and> doDeserialize 1 plainHost [humanEntry] noOptions
       (ICustomSerializedObject (JSString ''Human'') (Primitive PNull) None) [] emptyWorld
     = Some (Inl (MissingDeserializer (JSString ''Human'')))"
proof -
  have a: "find (matchesClass (JSString ''Ghost'')) [] = None
      \<or> (\<exists>cc. find (matchesClass (JSString ''Ghost'')) [] = Some cc \<and> deserializer cc = None)"
    by simp
  have b: "find (matchesClass (JSString ''Human'')) [humanEntry] = None
      \<or> (\<exists>cc. find (matchesClass (JSString ''Human'')) [humanEntry] = Some cc \<and> deserializer cc = None)"
    by (simp add: matchesClass_def humanEntry_def)
  show ?thesis
    using custom_node_missing_deserializer [OF a, of 0 plainHost noOptions "Primitive PNull" None "[]" emptyWorld]
      custom_node_missing_deserializer [OF b, of 0 plainHost noOptions "Primitive PNull" None "[]" emptyWorld]
    by simp
qed

section \<open>References in the decoder\<close>

text \<open>
  Claim C7: when the decoder meets a reference node whose id is the id of no node in
  the table at that point, it fails with DanglingReference; when the id is registered,
  it returns the result stored with the (first) entry of that id, and leaves table and
  world as they are.
\<close>

theorem reference_lookup:
  "(Some rid \<notin> nodeId ` fst ` set tbl \<longrightarrow>
      doDeserialize (Suc fuel) hst cs opts (IReference rid) tbl w = Some (Inl (DanglingReference rid)))
   \<and> (Some rid \<in> nodeId ` fst ` set tbl \<longrightarrow>
      (\<exists>item \<in> set tbl. nodeId (fst item) = Some rid
         \<and> find (\<lambda>i. nodeId (fst i) = Some rid) tbl = Some item
         \<and> doDeserialize (Suc fuel) hst cs opts (IReference rid) tbl w = Some (Inr (snd item, tbl, w))))"
proof (intro conjI impI)
  assume "Some rid \<notin> nodeId ` fst ` set tbl"
  then have "find (\<lambda>i. nodeId (fst i) = Some rid) tbl = None"
    by (force simp: find_None_iff)
  then show "doDeserialize (Suc fuel) hst cs opts (IReference rid) tbl w = Some (Inl (DanglingReference rid))"
    by (simp add: dec_defs)
next
  assume "Some rid \<in> nodeId ` fst ` set tbl"
  then obtain item where f: "find (\<lambda>i. nodeId (fst i) = Some rid) tbl = Some item"
    by (cases "find (\<lambda>i. nodeId (fst i) = Some rid) tbl") (force simp: find_None_iff)+
  then have "item \<in> set tbl" "nodeId (fst item) = Some rid"
    by (auto simp: find_Some_iff)
  moreover from f have "doDeserialize (Suc fuel) hst cs opts (IReference rid) tbl w = Some (Inr (snd item, tbl, w))"
    by (simp add: dec_defs)
  ultimately show "\<exists>item \<in> set tbl. nodeId (fst item) = Some rid
         \<and> find (\<lambda>i. nodeId (fst i) = Some rid) tbl = Some item
         \<and> doDeserialize (Suc fuel) hst cs opts (IReference rid) tbl w = Some (Inr (snd item, tbl, w))"
    using f by blast
qed

theorem reference_lookup_witness:
  "doDeserialize 1 plainHost [] noOptions (IReference 0) [] emptyWorld = Some (Inl (DanglingReference 0))
   \<and> doDeserialize 1 plainHost [] noOptions (IReference 0) [(circularNode, VObject 0)] emptyWorld
       = Some (Inr (VObject 0, [(circularNode, VObject 0)], emptyWorld))"
proof -
  have a: "Some (0::nat) \<notin> nodeId ` fst ` set ([] :: IAlreadyDeserialized list)" by simp
  have b: "Some (0::nat) \<in> nodeId ` fst ` set [(circularNode, VObject 0 :: jsval)]"
    by (simp add: circularNode_def)
  show ?thesis
    using a b reference_lookup [of 0 "[]" 0 plainHost "[]" noOptions emptyWorld]
      reference_lookup [of 0 "[(circularNode, VObject 0)]" 0 plainHost "[]" noOptions emptyWorld]
    by simp
qed

section \<open>The classifier\<close>

lemma find_fst_tests:
  "find fst [(b1, k1), (b2, k2), (b3, k3), (b4, k4), (b5, k5), (b6, k6), (b7, k7 :: value_kind)]
     = (if b1 then Some (b1, k1) else if b2 then Some (b2, k2) else if b3 then Some (b3, k3)
        else if b4 then Some (b4, k4) else if b5 then Some (b5, k5) else if b6 then Some (b6, k6)
        else if b7 then Some (b7, k7) else None)"
  by simp

lemma valueKind_chain:
  "valueKind h v =
     (if isPrimitiveType v then Some KPrimitive
      else if isSymbol v then Some KSymbol
      else if isFunction v then Some KFunction
      else if isBuiltInType h v then Some KBuiltIn
      else if isArray h v then Some KArray
      else if isObjectLiteral h v then Some KRecord
      else if isInstance h v then Some KInstance
      else None)"
  unfolding valueKind_def kindTests_def find_fst_tests by simp







section \<open>Functions and symbols in the decoder\<close>

text \<open>
  Claim C9 as stated fails: what the encoder keeps of a function is its name, and the
  decoder without a hook returns that name, a string, not the function.
\<close>

theorem function_decodes_to_name:
  "serialize 1 plainHost [] noOptions [] 0 (VFunction 7 ''hello'') = Some (Inr (IFunction ''hello''), 0)
   \<and> deserialize 1 plainHost [] noOptions (IFunction ''hello'') emptyWorld
       = Some (Inr (VPrimitive (PString ''hello''), emptyWorld))
   \<and> VPrimitive (PString ''hello'') \<noteq> VFunction 7 ''hello''"
  by (simp add: enc_defs dec_defs noOptions_def)

text \<open>
  Claim C9, amended: deserializing a function node when no \<^verbatim>\<open>deserializeFunction\<close>
  hook is supplied returns the stored name of the function as a string; deserializing a
  symbol node when no \<^verbatim>\<open>deserializeSymbol\<close> hook is supplied returns a symbol with
  the stored name and the next unused identity, so that decoding the node again yields
  a different symbol.
\<close>

theorem function_name_and_fresh_symbol:
  "(deserializeFunction opts = None \<longrightarrow>
      doDeserialize (Suc fuel) hst cs opts (IFunction nm) tbl w
        = Some (Inr (VPrimitive (PString nm), tbl, w)))
   \<and> (deserializeSymbol opts = None \<longrightarrow>
      doDeserialize (Suc fuel) hst cs opts (ISymbol nm) tbl w
        = Some (Inr (VSymbol (nextSymbol w) nm, tbl, w\<lparr>nextSymbol := nextSymbol w + 1\<rparr>))
      \<and> doDeserialize (Suc fuel) hst cs opts (ISymbol nm) tbl (w\<lparr>nextSymbol := nextSymbol w + 1\<rparr>)
        = Some (Inr (VSymbol (nextSymbol w + 1) nm, tbl, w\<lparr>nextSymbol := nextSymbol w + 2\<rparr>)))"
  by (simp add: dec_defs)

theorem function_name_and_fresh_symbol_witness:
  "doDeserialize 1 plainHost [] noOptions (IFunction ''hello'') [] emptyWorld
     = Some (Inr (VPrimitive (PString ''hello''), [], emptyWorld))
   \<and> doDeserialize 1 plainHost [] noOptions (ISymbol ''x'') [] emptyWorld
     = Some (Inr (VSymbol 0 ''x'', [], \<lparr>objects = [], nextSymbol = 1\<rparr>))"
proof -
  have a: "deserializeFunction noOptions = None" by (simp add: noOptions_def)
  have b: "deserializeSymbol noOptions = None" by (simp add: noOptions_def)
  show ?thesis
    using a b function_name_and_fresh_symbol [of noOptions 0 plainHost "[]" "''hello''" "[]" emptyWorld]
      function_name_and_fresh_symbol [of noOptions 0 plainHost "[]" "''x''" "[]" emptyWorld]
    by (simp add: emptyWorld_def)
qed

section \<open>Objects without a constructor\<close>

text \<open>
  Claim C10 as stated fails for an object whose prototype is null and that has a
  property \<^verbatim>\<open>constructor\<close> of its own: a null prototype does not keep an object from
  having one.  With the own property \<^verbatim>\<open>constructor: 5\<close> the failure branch reads the
  \<^verbatim>\<open>name\<close> of the number, which is undefined, and the call fails with
  UnregisteredType; with the function \<^verbatim>\<open>Object\<close> as own \<^verbatim>\<open>constructor\<close> the
  object is taken for a plain record and the call succeeds.
\<close>

theorem null_prototype_own_constructor:
  "serialize 1 plainHost [] noOptions [OObject [] [(''constructor'', VPrimitive (PNumber 5))]] 0
       (VObject 0)
     = Some (Inl (UnregisteredType JSUndefined), 0)
   \<and> valueKind [OObject [] [(''constructor'', VFunction 0 ''Object'')]] (VObject 0) = Some KRecord
   \<and> serialize 2 plainHost [] noOptions [OObject [] [(''constructor'', VFunction 0 ''Object'')]] 0
       (VObject 0)
     = Some (Inr (IObjectLiteral [(''constructor'', IFunction ''Object'')] None), 0)"
  by (simp add: valueKind_chain enc_defs noOptions_def eval_nat_numeral)

text \<open>
  Claim C10, amended: an object whose prototype is null and that has no \<^verbatim>\<open>constructor\<close>
  of its own (or one that is undefined or null) has no constructor; the encoder takes it
  for a constructed instance, no registry entry can match it, and the failure branch
  reads \<^verbatim>\<open>name\<close> of the undefined constructor: the call aborts with a TypeError, not
  with UnregisteredType, whatever the registry.
\<close>

theorem null_prototype_type_error:
  assumes "lookup h a = Some (OObject [] props)"
    and "\<forall>u. map_of props ''constructor'' = Some u \<longrightarrow> u = JSUndefined \<or> u = VPrimitive PNull"
    and "VObject a \<notin> fst ` set tbl"
  shows "valueKind h (VObject a) = Some KInstance
     \<and> isInstance h (VObject a) \<and> \<not> isObjectLiteral h (VObject a)
     \<and> find (\<lambda>cc. instanceOf h (VObject a) (ctor cc)) cs = None
     \<and> doSerialize (Suc fuel) hst cs opts h (VObject a) tbl c = Some (Inl TypeError, c)
     \<and> serialize (Suc fuel) hst cs opts h c (VObject a) = Some (Inl TypeError, c)"
proof -
  have nf: "findAlreadySerialized (VObject a) tbl c = None" for c
    using assms(3) by (simp add: findAlreadySerialized_None)
  have fi: "find (\<lambda>cc. instanceOf h (VObject a) (ctor cc)) cs = None"
    using assms(1) by (simp add: find_None_iff instanceOf_def deref_def)
  have ct: "\<not> ctorTruthy (getConstructor h (VObject a))"
    using assms(1,2) by (auto split: option.splits)
  have cn: "constructorName h (VObject a) = Inl TypeError"
    using assms(1,2) by (auto simp: constructorName_def split: option.splits)
  have il: "\<not> isObjectLiteral h (VObject a)" using ct by (simp add: isObjectLiteral_def)
  have ii: "isInstance h (VObject a)" using il by (simp add: isInstance_def)
  have d: "doSerialize (Suc fuel) hst cs opts h (VObject a) tbl c = Some (Inl TypeError, c)"
    if "findAlreadySerialized (VObject a) tbl c = None" for tbl c
    using assms(1) that fi cn il ii
    by (simp add: isPrimitiveType_def isSymbol_def isFunction_def isBuiltInType_def isArray_def
        deref_def serializeInstance_def throw_def)
  have e: "doSerialize (Suc fuel) hst cs opts h (VObject a) [] c = Some (Inl TypeError, c)"
    by (rule d) simp
  have k: "valueKind h (VObject a) = Some KInstance"
    using assms(1) il ii
    by (simp add: valueKind_chain isPrimitiveType_def isSymbol_def isFunction_def isBuiltInType_def
        isArray_def deref_def)
  show ?thesis
    using d[OF nf] e fi il ii k by (simp add: serialize_def)
qed

theorem null_prototype_type_error_witness:
  "serialize 1 plainHost [humanEntry] noOptions [OObject [] [(''x'', VPrimitive (PNumber 1))]] 0 (VObject 0)
     = Some (Inl TypeError, 0)"
proof -
  have a: "lookup [OObject [] [(''x'', VPrimitive (PNumber 1))]] 0
      = Some (OObject [] [(''x'', VPrimitive (PNumber 1))])"
    by (simp add: lookup_def)
  have b: "\<forall>u. map_of [(''x'', VPrimitive (PNumber 1))] ''constructor'' = Some u
             \<longrightarrow> u = JSUndefined \<or> u = VPrimitive PNull"
    by simp
  have c: "VObject 0 \<notin> fst ` set ([] :: IAlreadySerialized list)" by simp
  show ?thesis
    using null_prototype_type_error [OF a b c, of "[humanEntry]" 0 plainHost noOptions 0]
    by simp
qed

section \<open>The counter and the ids\<close>

lemma bind_eq_Some:
  "bind r k = Some res \<longleftrightarrow>
     (\<exists>e c. r = Some (Inl e, c) \<and> res = (Inl e, c))
     \<or> (\<exists>x tbl c. r = Some (Inr (x, tbl), c) \<and> k x tbl c = Some res)"
  by (auto simp: bind_def split: option.splits sum.splits prod.splits)

lemma tableIds_append [simp]: "tableIds (tbl @ tbl') = tableIds tbl @ tableIds tbl'"
  by (induction tbl rule: tableIds.induct) simp_all

lemma findAlreadySerialized_ids:
  "findAlreadySerialized source tbl c = Some (r, tbl', c') \<Longrightarrow>
     (c' = c \<and> tableIds tbl' = tableIds tbl)
     \<or> (c' = Suc c \<and> (\<exists>xs ys. tableIds tbl = xs @ ys \<and> tableIds tbl' = xs @ c # ys))"
proof (induction tbl arbitrary: r tbl' c')
  case Nil
  then show ?case by simp
next
  case (Cons e tbl)
  obtain s i where e: "e = (s, i)" by (cases e)
  show ?case
  proof (cases "s = source")
    case True
    show ?thesis
    proof (cases i)
      case None
      with True Cons.prems e have "c' = Suc c" "tbl' = (s, Some c) # tbl" by simp_all
      then have "tableIds (e # tbl) = [] @ tableIds tbl \<and> tableIds tbl' = [] @ c # tableIds tbl"
        using e None by simp
      with \<open>c' = Suc c\<close> show ?thesis by blast
    next
      case (Some j)
      with True Cons.prems e have "c' = c" "tbl' = (s, Some j) # tbl" by simp_all
      with e Some show ?thesis by simp
    qed
  next
    case False
    with Cons.prems e obtain rest where
      f: "findAlreadySerialized source tbl c = Some (r, rest, c')" and t: "tbl' = (s, i) # rest"
      by (auto split: option.splits)
    from Cons.IH[OF f] show ?thesis
    proof
      assume "c' = c \<and> tableIds rest = tableIds tbl"
      with t e show ?thesis by (cases i) simp_all
    next
      assume "c' = Suc c \<and> (\<exists>xs ys. tableIds tbl = xs @ ys \<and> tableIds rest = xs @ c # ys)"
      then obtain xs ys where c: "c' = Suc c" and x: "tableIds tbl = xs @ ys" "tableIds rest = xs @ c # ys"
        by blast
      show ?thesis
      proof (cases i)
        case None
        with x t e have "tableIds (e # tbl) = xs @ ys \<and> tableIds tbl' = xs @ c # ys" by simp
        with c show ?thesis by blast
      next
        case (Some j)
        with x t e have "tableIds (e # tbl) = (j # xs) @ ys \<and> tableIds tbl' = (j # xs) @ c # ys" by simp
        with c show ?thesis by blast
      qed
    qed
  qed
qed

lemma findAlreadySerialized_idsFrom:
  assumes "idsFrom c0 tbl c" "findAlreadySerialized source tbl c = Some (r, tbl', c')"
  shows "c \<le> c' \<and> idsFrom c0 tbl' c'"
  using findAlreadySerialized_ids[OF assms(2)]
proof
  assume "c' = c \<and> tableIds tbl' = tableIds tbl"
  with assms(1) show ?thesis by (simp add: idsFrom_def)
next
  assume "c' = Suc c \<and> (\<exists>xs ys. tableIds tbl = xs @ ys \<and> tableIds tbl' = xs @ c # ys)"
  then obtain xs ys where c: "c' = Suc c" and x: "tableIds tbl = xs @ ys" "tableIds tbl' = xs @ c # ys"
    by blast
  from assms(1) x(1) have d: "distinct (xs @ ys)" "set (xs @ ys) = {c0..<c}" "c0 \<le> c"
    by (simp_all add: idsFrom_def)
  then have "c \<notin> set (xs @ ys)" by simp
  with d have "distinct (xs @ c # ys)" by auto
  moreover have "set (xs @ c # ys) = insert c (set (xs @ ys))" by auto
  then have "set (xs @ c # ys) = {c0..<Suc c}" using d(2,3) by (simp add: atLeastLessThanSuc)
  ultimately show ?thesis using c x(2) d(3) by (simp add: idsFrom_def)
qed

lemma idsFrom_push: "idsFrom c0 (tbl @ [(s, None)]) c = idsFrom c0 tbl c"
  by (simp add: idsFrom_def)

lemma keepsIdsD:
  "keepsIds c0 step \<Longrightarrow> idsFrom c0 tbl c \<Longrightarrow> step v tbl c = Some (r, c') \<Longrightarrow>
     c \<le> c' \<and> (\<forall>t tbl'. r = Inr (t, tbl') \<longrightarrow> idsFrom c0 tbl' c')"
  unfolding keepsIds_def by blast

lemma serializeProps_ids:
  assumes k: "keepsIds c0 rec"
  shows "idsFrom c0 tbl c \<Longrightarrow> serializeProps rec props keys acc tbl c = Some (r, c') \<Longrightarrow>
     c \<le> c' \<and> (\<forall>t tbl'. r = Inr (t, tbl') \<longrightarrow> idsFrom c0 tbl' c')"
proof (induction keys arbitrary: acc tbl c)
  case Nil
  then show ?case by (auto simp: ret_def)
next
  case (Cons key keys)
  from Cons.prems(2) show ?case
    unfolding serializeProps.simps bind_eq_Some
  proof (elim disjE exE conjE)
    fix e c1 assume "rec (getProp props key) tbl c = Some (Inl e, c1)" "(r, c') = (Inl e, c1)"
    with keepsIdsD[OF k Cons.prems(1)] show ?thesis by auto
  next
    fix x tbl1 c1
    assume a: "rec (getProp props key) tbl c = Some (Inr (x, tbl1), c1)"
      and b: "serializeProps rec props keys (setField key x acc) tbl1 c1 = Some (r, c')"
    from keepsIdsD[OF k Cons.prems(1) a] have "c \<le> c1" "idsFrom c0 tbl1 c1" by auto
    with Cons.IH[OF _ b] show ?thesis by auto
  qed
qed

lemma serializeItems_ids:
  assumes k: "keepsIds c0 rec"
  shows "idsFrom c0 tbl c \<Longrightarrow> serializeItems rec items acc tbl c = Some (r, c') \<Longrightarrow>
     c \<le> c' \<and> (\<forall>t tbl'. r = Inr (t, tbl') \<longrightarrow> idsFrom c0 tbl' c')"
proof (induction items arbitrary: acc tbl c)
  case Nil
  then show ?case by (auto simp: ret_def)
next
  case (Cons item items)
  from Cons.prems(2) show ?case
    unfolding serializeItems.simps bind_eq_Some
  proof (elim disjE exE conjE)
    fix e c1 assume "rec item tbl c = Some (Inl e, c1)" "(r, c') = (Inl e, c1)"
    with keepsIdsD[OF k Cons.prems(1)] show ?thesis by auto
  next
    fix x tbl1 c1
    assume a: "rec item tbl c = Some (Inr (x, tbl1), c1)"
      and b: "serializeItems rec items (acc @ [x]) tbl1 c1 = Some (r, c')"
    from keepsIdsD[OF k Cons.prems(1) a] have "c \<le> c1" "idsFrom c0 tbl1 c1" by auto
    with Cons.IH[OF _ b] show ?thesis by auto
  qed
qed

lemma serializeEntries_ids:
  assumes k: "keepsIds c0 rec"
  shows "idsFrom c0 tbl c \<Longrightarrow> serializeEntries rec entries acc tbl c = Some (r, c') \<Longrightarrow>
     c \<le> c' \<and> (\<forall>t tbl'. r = Inr (t, tbl') \<longrightarrow> idsFrom c0 tbl' c')"
proof (induction entries arbitrary: acc tbl c)
  case Nil
  then show ?case by (auto simp: ret_def)
next
  case (Cons entry entries)
  obtain key val where e: "entry = (key, val)" by (cases entry)
  from Cons.prems(2) show ?case
    unfolding e serializeEntries.simps bind_eq_Some
  proof (elim disjE exE conjE)
    fix e c1 assume "rec key tbl c = Some (Inl e, c1)" "(r, c') = (Inl e, c1)"
    with keepsIdsD[OF k Cons.prems(1)] show ?thesis by auto
  next
    fix x tbl1 c1 e2 c2
    assume a: "rec key tbl c = Some (Inr (x, tbl1), c1)"
      and b: "rec val tbl1 c1 = Some (Inl e2, c2)" "(r, c') = (Inl e2, c2)"
    from keepsIdsD[OF k Cons.prems(1) a] have "c \<le> c1" "idsFrom c0 tbl1 c1" by auto
    with keepsIdsD[OF k _ b(1)] b(2) show ?thesis by auto
  next
    fix x tbl1 c1 y tbl2 c2
    assume a: "rec key tbl c = Some (Inr (x, tbl1), c1)"
      and b: "rec val tbl1 c1 = Some (Inr (y, tbl2), c2)"
      and d: "serializeEntries rec entries (acc @ [(x, y)]) tbl2 c2 = Some (r, c')"
    from keepsIdsD[OF k Cons.prems(1) a] have 1: "c \<le> c1" "idsFrom c0 tbl1 c1" by auto
    from keepsIdsD[OF k 1(2) b] have 2: "c1 \<le> c2" "idsFrom c0 tbl2 c2" by auto
    with Cons.IH[OF _ d] 1 show ?thesis by auto
  qed
qed

lemma runHook_ids:
  assumes k: "keepsIds c0 rec"
  shows "idsFrom c0 tbl c \<Longrightarrow> runHook rec prog tbl c = Some (r, c') \<Longrightarrow>
     c \<le> c' \<and> (\<forall>t tbl'. r = Inr (t, tbl') \<longrightarrow> idsFrom c0 tbl' c')"
proof (induction prog arbitrary: tbl c)
  case (HReturn p)
  then show ?case by (auto simp: ret_def)
next
  case (HThrow m)
  then show ?case by (auto simp: throw_def)
next
  case (HSerialize v kont)
  from HSerialize.prems(2) show ?case
    unfolding runHook.simps bind_eq_Some
  proof (elim disjE exE conjE)
    fix e c1 assume "rec v tbl c = Some (Inl e, c1)" "(r, c') = (Inl e, c1)"
    with keepsIdsD[OF k HSerialize.prems(1)] show ?thesis by auto
  next
    fix x tbl1 c1
    assume a: "rec v tbl c = Some (Inr (x, tbl1), c1)"
      and b: "runHook rec (kont x) tbl1 c1 = Some (r, c')"
    from keepsIdsD[OF k HSerialize.prems(1) a] have 1: "c \<le> c1" "idsFrom c0 tbl1 c1" by auto
    from HSerialize.IH[OF _ 1(2) b] 1 show ?thesis by auto
  qed
qed


lemma fromHook_ids:
  "idsFrom c0 tbl c \<Longrightarrow> fromHook x tbl c = Some (r, c') \<Longrightarrow>
     c \<le> c' \<and> (\<forall>t tbl'. r = Inr (t, tbl') \<longrightarrow> idsFrom c0 tbl' c')"
  by (auto simp: fromHook_def ret_def throw_def split: sum.splits)

lemma serializeObjectLiteral_ids:
  assumes k: "keepsIds c0 rec" and i: "idsFrom c0 tbl c"
    and s: "serializeObjectLiteral rec h source tbl c = Some (r, c')"
  shows "c \<le> c' \<and> (\<forall>t tbl'. r = Inr (t, tbl') \<longrightarrow> idsFrom c0 tbl' c')"
proof (cases "findAlreadySerialized source tbl c")
  case None
  with s have "bind (serializeProps rec (ownProps h source) (map fst (ownProps h source)) []
                  (tbl @ [(source, None)]) c)
            (\<lambda>fs tbl' c'. ret (IObjectLiteral fs (Slot (length tbl))) tbl' c') = Some (r, c')"
    by (simp add: serializeObjectLiteral_def)
  then show ?thesis
    using serializeProps_ids[OF k, of "tbl @ [(source, None)]" c] i
    by (auto simp: bind_eq_Some ret_def idsFrom_push)
next
  case (Some x)
  then obtain e tbl1 c1 where x: "x = (e, tbl1, c1)" by (cases x)
  with Some s findAlreadySerialized_idsFrom[OF i, of source e tbl1 c1] show ?thesis
    by (auto simp: serializeObjectLiteral_def ret_def)
qed

lemma serializeArray_ids:
  assumes k: "keepsIds c0 rec" and i: "idsFrom c0 tbl c"
    and s: "serializeArray rec h source tbl c = Some (r, c')"
  shows "c \<le> c' \<and> (\<forall>t tbl'. r = Inr (t, tbl') \<longrightarrow> idsFrom c0 tbl' c')"
proof (cases "findAlreadySerialized source tbl c")
  case None
  with s show ?thesis
    using serializeItems_ids[OF k, of "tbl @ [(source, None)]" c] i
    by (auto simp: serializeArray_def bind_eq_Some ret_def idsFrom_push)
next
  case (Some x)
  then obtain e tbl1 c1 where x: "x = (e, tbl1, c1)" by (cases x)
  with Some s findAlreadySerialized_idsFrom[OF i, of source e tbl1 c1] show ?thesis
    by (auto simp: serializeArray_def ret_def)
qed

lemma serializeBuiltInType_ids:
  assumes k: "keepsIds c0 rec" and i: "idsFrom c0 tbl c"
    and s: "serializeBuiltInType hst rec h source tbl c = Some (r, c')"
  shows "c \<le> c' \<and> (\<forall>t tbl'. r = Inr (t, tbl') \<longrightarrow> idsFrom c0 tbl' c')"
proof (cases "findAlreadySerialized source tbl c")
  case None
  note n = None
  show ?thesis
  proof (cases "deref h source")
    case None
    with n s i show ?thesis by (auto simp: serializeBuiltInType_def throw_def)
  next
    case (Some obj)
    show ?thesis
    proof (cases obj)
      case (ODate t)
      with n Some s i show ?thesis by (auto simp: serializeBuiltInType_def ret_def)
    next
      case (OMap es)
      with n Some s show ?thesis
        using serializeEntries_ids[OF k, of "tbl @ [(source, None)]" c] i
        by (auto simp: serializeBuiltInType_def bind_eq_Some ret_def idsFrom_push)
    next
      case (OSet xs)
      with n Some s show ?thesis
        using serializeItems_ids[OF k, of "tbl @ [(source, None)]" c] i
        by (auto simp: serializeBuiltInType_def bind_eq_Some ret_def idsFrom_push)
    next
      case (ORegExp src flags)
      with n Some s i show ?thesis
        by (auto simp: serializeBuiltInType_def ret_def idsFrom_push)
    next
      case (OArray xs)
      with n Some s i show ?thesis by (auto simp: serializeBuiltInType_def throw_def)
    next
      case (OObject chain props)
      with n Some s i show ?thesis by (auto simp: serializeBuiltInType_def throw_def)
    qed
  qed
next
  case (Some x)
  then obtain e tbl1 c1 where x: "x = (e, tbl1, c1)" by (cases x)
  with Some s findAlreadySerialized_idsFrom[OF i, of source e tbl1 c1] show ?thesis
    by (auto simp: serializeBuiltInType_def ret_def)
qed

lemma serializeInstance_ids:
  assumes k: "keepsIds c0 rec" and i: "idsFrom c0 tbl c"
    and s: "serializeInstance hst cs rec h source tbl c = Some (r, c')"
  shows "c \<le> c' \<and> (\<forall>t tbl'. r = Inr (t, tbl') \<longrightarrow> idsFrom c0 tbl' c')"
proof (cases "findAlreadySerialized source tbl c")
  case None
  note n = None
  show ?thesis
  proof (cases "find (\<lambda>cc. instanceOf h source (ctor cc)) cs")
    case None
    with n s i show ?thesis
      by (auto simp: serializeInstance_def throw_def split: option.splits sum.splits)
  next
    case (Some cc)
    show ?thesis
    proof (cases "className cc h source")
      case (Inl e)
      with n Some s i show ?thesis
        by (auto simp: serializeInstance_def throw_def split: option.splits)
    next
      case (Inr cls)
      show ?thesis
      proof (cases "serializer cc")
        case None
        with n Some Inr s show ?thesis
          using serializeProps_ids[OF k, of "tbl @ [(source, None)]" c] i
          by (auto simp: serializeInstance_def bind_eq_Some ret_def idsFrom_push)
      next
        case (Some hook)
        with n \<open>find (\<lambda>cc. instanceOf h source (ctor cc)) cs = Some cc\<close> Inr s show ?thesis
          using runHook_ids[OF k, of "tbl @ [(source, None)]" c] i
          by (auto simp: serializeInstance_def bind_eq_Some ret_def idsFrom_push)
      qed
    qed
  qed
next
  case (Some x)
  then obtain e tbl1 c1 where x: "x = (e, tbl1, c1)" by (cases x)
  with Some s findAlreadySerialized_idsFrom[OF i, of source e tbl1 c1] show ?thesis
    by (auto simp: serializeInstance_def ret_def)
qed

lemma doSerialize_keepsIds: "keepsIds c0 (doSerialize fuel hst cs opts h)"
proof (induction fuel)
  case 0
  show ?case by (simp add: keepsIds_def)
next
  case (Suc fuel)
  show ?case
    unfolding keepsIds_def
  proof (intro allI impI)
    fix v tbl c r c'
    assume i: "idsFrom c0 tbl c" and s: "doSerialize (Suc fuel) hst cs opts h v tbl c = Some (r, c')"
    show "c \<le> c' \<and> (\<forall>t tbl'. r = Inr (t, tbl') \<longrightarrow> idsFrom c0 tbl' c')"
      using s i fromHook_ids[OF i]
        serializeBuiltInType_ids[OF Suc i] serializeArray_ids[OF Suc i]
        serializeObjectLiteral_ids[OF Suc i] serializeInstance_ids[OF Suc i]
      by (auto simp: ret_def throw_def split: if_splits option.splits)
  qed
qed

text \<open>
  Claim C6 as stated fails: the counter is a variable of the factory, not of the call.
  A second top-level call on the same serializer continues where the first one stopped:
  the self-referencing record gets id 0 in the first call and id 1 in the second.
\<close>

theorem second_call_continues_counter:
  "serialize 2 plainHost [] noOptions circularRecord initialCounter (VObject 0)
     = Some (Inr circularNode, 1)
   \<and> serialize 2 plainHost [] noOptions circularRecord 1 (VObject 0)
     = Some (Inr (IObjectLiteral
         [(''x'', Primitive (PNumber 10)), (''y'', Primitive (PNumber 20)),
          (''circular'', IReference 1)]
         (Some 1)), 2)"
  by (simp add: enc_defs circularRecord_def circularNode_def initialCounter_def eval_nat_numeral)

text \<open>
  Claim C6, amended: within every top-level call on a serializer, id assignment starts
  at the value the counter of the serializer has when the call begins (0 only for the
  first call on a new serializer) and goes up by one with every id assigned; the table
  is created empty for the call; the counter is not reset between calls, the next call
  starts from the value this call leaves.  For a call that starts with the counter at
  \<open>c\<close> and leaves it at \<open>c'\<close>: the ids in the table at the end are exactly
  \<open>c, \<dots>, c' - 1\<close>, each on one entry, and the call is \<^verbatim>\<open>doSerialize\<close> on the
  empty table.
\<close>

theorem ids_continue_from_counter:
  assumes "doSerialize fuel hst cs opts h v [] c = Some (r, c')"
  shows "c \<le> c'
     \<and> (\<forall>t tbl. r = Inr (t, tbl) \<longrightarrow> distinct (tableIds tbl) \<and> set (tableIds tbl) = {c..<c'})
     \<and> serialize fuel hst cs opts h c v
         = Some (case r of Inl e \<Rightarrow> Inl e | Inr (t, tbl) \<Rightarrow> Inr (map_node (slotId tbl) t), c')"
proof -
  have "idsFrom c [] c" by (simp add: idsFrom_def)
  from keepsIdsD[OF doSerialize_keepsIds this assms]
  have "c \<le> c'" "\<forall>t tbl. r = Inr (t, tbl) \<longrightarrow> idsFrom c tbl c'" by auto
  moreover have "serialize fuel hst cs opts h c v
         = Some (case r of Inl e \<Rightarrow> Inl e | Inr (t, tbl) \<Rightarrow> Inr (map_node (slotId tbl) t), c')"
    using assms by (auto simp: serialize_def split: sum.splits)
  ultimately show ?thesis by (auto simp: idsFrom_def)
qed

theorem ids_continue_from_counter_witness:
  "(1::nat) \<le> 2
   \<and> distinct (tableIds [(VObject 0, Some 1)]) \<and> set (tableIds [(VObject 0, Some 1)]) = {1..<2}
   \<and> serialize 2 plainHost [] noOptions circularRecord 1 (VObject 0)
     = Some (Inr (IObjectLiteral
         [(''x'', Primitive (PNumber 10)), (''y'', Primitive (PNumber 20)),
          (''circular'', IReference 1)]
         (Some 1)), 2)"
proof -
  have a: "doSerialize 2 plainHost [] noOptions circularRecord (VObject 0) [] 1
      = Some (Inr (IObjectLiteral
           [(''x'', Primitive (PNumber 10)), (''y'', Primitive (PNumber 20)),
            (''circular'', IReference 1)] (Slot 0), [(VObject 0, Some 1)]), 2)"
    by (simp add: enc_defs circularRecord_def eval_nat_numeral)
  show ?thesis
    using ids_continue_from_counter [OF a]
    by (simp add: slotId_def)
qed


section \<open>The encoder follows the traversal relation\<close>

subsection \<open>Sequencing\<close>

lemma bind_ret [simp]: "bind (ret x tbl c) k = k x tbl c"
  by (simp add: bind_def ret_def)


lemma bind_Inr [simp]: "bind (Some (Inr (x, tbl), c)) k = k x tbl c"
  by (simp add: bind_def)

subsection \<open>The loops of the encoder\<close>







subsection \<open>Tables\<close>






lemma unvisited_finite [simp]: "finite (unvisited h tbl)"
  by (simp add: unvisited_def)















lemma isPrimitiveType_prim [simp]: "isPrimitiveType (VPrimitive p)"
  by (cases p) (simp_all add: isPrimitiveType_def)

lemma not_prim_object [simp]:
  "\<not> isPrimitiveType (VObject a)" "\<not> isSymbol (VObject a)" "\<not> isFunction (VObject a)"
  by (simp_all add: isPrimitiveType_def isSymbol_def isFunction_def)






section \<open>The decoder rebuilds what the encoder traversed\<close>

subsection \<open>Shapes grow the list of identities\<close>




subsection \<open>Values and objects of the decoder\<close>










subsection \<open>Unique ids\<close>



subsection \<open>The loops of the decoder\<close>


















subsection \<open>New objects\<close>





subsection \<open>A filled object mirrors its source\<close>






lemma pairs_kids: "pairs (kids (OMap es)) = es"
  by (induction es) simp_all





subsection \<open>The decoder on each kind of node\<close>

















subsection \<open>The decoder follows the encoder\<close>




section \<open>Full nodes and references, position by position\<close>

subsection \<open>Steps and indices\<close>





lemma flat_length [simp]: "length (concat (map (\<lambda>e. [fst e, snd e]) es)) = 2 * length es"
  by (induction es) simp_all

lemma kids_map_length: "length (kids (OMap es)) = 2 * length es"
  by simp









subsection \<open>Threads and the identities they add\<close>








subsection \<open>The node at a position of the output\<close>








subsection \<open>One full node for each identity\<close>



subsection \<open>Positions survive the reading of the ids\<close>




lemma fullNode_map [simp]: "fullNode (map_node f t) = fullNode t"
  by (cases t) simp_all


lemma reference_map [simp]: "map_node f (IReference i) = IReference i"
  by simp

subsection \<open>The decoded graph, position by position\<close>




section \<open>Whole calls on a handled graph\<close>

subsection \<open>A whole call of the encoder\<close>





subsection \<open>A whole call of the decoder on the output\<close>


section \<open>Identity sharing\<close>


text \<open>
  Three more kinds of graph on which sharing is lost, all left out of \<open>handledHeap\<close>.
  The node of a field named \<^verbatim>\<open>__proto__\<close> is assigned through the setter of
  \<^verbatim>\<open>Object.prototype\<close> and never becomes a field of the record node: the record
  \<^verbatim>\<open>{__proto__: a, x: a}\<close> (with \<^verbatim>\<open>__proto__\<close> as an own property) is encoded
  with a reference to \<^verbatim>\<open>a\<close> and no full node for it, and the decoder fails on the
  output.  A function is decoded to its name: the \<^verbatim>\<open>Set\<close> of a function named
  \<^verbatim>\<open>f\<close>, the string \<^verbatim>\<open>f\<close> and an array is decoded to a \<^verbatim>\<open>Set\<close> of two
  members, where the array is the second member and not the third.  The decoder enters
  the result of a deserializer hook in no table: unless the hook does so itself, the
  reference to an instance that the hooks of its class encode and decode is not found.
\<close>

lemma proto_field_not_encoded:
  "serialize 3 plainHost [] noOptions
     [OObject [objectClass] [(''__proto__'', VObject 1), (''x'', VObject 1)], OArray []] 0 (VObject 0)
     = Some (Inr (IObjectLiteral [(''x'', IReference 0)] None), 1)
   \<and> deserialize 3 plainHost [] noOptions (IObjectLiteral [(''x'', IReference 0)] None) emptyWorld
     = Some (Inl (DanglingReference 0))"
  by (simp add: enc_defs dec_defs noOptions_def plainHost_def emptyWorld_def eval_nat_numeral)

lemma function_members_collide:
  "serialize 3 plainHost [] noOptions
     [OSet [VFunction 7 ''f'', JSString ''f'', VObject 1], OArray []] 0 (VObject 0)
     = Some (Inr (IBuiltInSet [IFunction ''f'', Primitive (PString ''f''), IArray [] None] None), 0)
   \<and> deserialize 3 plainHost [] noOptions
        (IBuiltInSet [IFunction ''f'', Primitive (PString ''f''), IArray [] None] None) emptyWorld
     = Some (Inr (VObject 0,
          \<lparr>objects = [OSet [JSString ''f'', VObject 1], OArray []], nextSymbol = 0\<rparr>))"
  by (simp add: enc_defs dec_defs noOptions_def plainHost_def emptyWorld_def eval_nat_numeral)

lemma hooked_instance_not_restored:
  "serialize 3 plainHost
     [\<lparr>name = None, ctor = JSClass 1 ''Human'',
       serializer = Some (\<lambda>h source. HReturn (Primitive PNull)),
       deserializer = Some (\<lambda>v source tbl rec w.
         Some (Inr (VObject (length (objects w)), tbl,
           w\<lparr>objects := objects w @ [OObject [JSClass 1 ''Human'', objectClass] []]\<rparr>)))\<rparr>]
     noOptions
     [OArray [VObject 1, VObject 1], OObject [JSClass 1 ''Human'', objectClass] []] 0 (VObject 0)
     = Some (Inr (IArray [ICustomSerializedObject (JSString ''Human'') (Primitive PNull) (Some 0),
                          IReference 0] None), 1)
   \<and> deserialize 3 plainHost
     [\<lparr>name = None, ctor = JSClass 1 ''Human'',
       serializer = Some (\<lambda>h source. HReturn (Primitive PNull)),
       deserializer = Some (\<lambda>v source tbl rec w.
         Some (Inr (VObject (length (objects w)), tbl,
           w\<lparr>objects := objects w @ [OObject [JSClass 1 ''Human'', objectClass] []]\<rparr>)))\<rparr>]
     noOptions
     (IArray [ICustomSerializedObject (JSString ''Human'') (Primitive PNull) (Some 0),
              IReference 0] None) emptyWorld
     = Some (Inl (DanglingReference 0))"
  by (simp add: enc_defs dec_defs noOptions_def plainHost_def emptyWorld_def eval_nat_numeral)





end
